theory Spec2Isabelle
  imports Main "HOL-Library.Word"
begin

unbundle bit_operations_syntax

section \<open>Data model of ztqual.c\<close>

text \<open>
  The visibility rules of \<^verbatim>\<open>src/backend/utils/time/ztqual.c\<close> read a tuple, the
  page's transaction slots, the undo log and the transaction manager. The C integer
  types are words of their width.
\<close>

type_synonym TransactionId = "32 word"
type_synonym CommandId = "32 word"
type_synonym UndoRecPtr = "64 word"
type_synonym BlockNumber = "32 word"
type_synonym OffsetNumber = "16 word"
type_synonym Oid = "32 word"
type_synonym Buffer = int

record ItemPointerData =
  ip_blkid :: BlockNumber
  ip_posid :: OffsetNumber

record ZHeapTupleHeaderData =
  t_infomask2 :: "16 word"
  t_infomask :: "16 word"

record ZHeapTupleData =
  t_self :: ItemPointerData
  t_tableOid :: Oid
  t_data :: ZHeapTupleHeaderData

text \<open>
  An unpacked undo record: \<open>uur_payload\<close> is the payload read as an item pointer (the
  code casts \<^verbatim>\<open>uur_payload.data\<close> to \<^verbatim>\<open>ItemPointer\<close>), \<open>uur_tuple\<close> the tuple
  image that \<^verbatim>\<open>CopyTupleFromUndoRecord\<close> works from.
\<close>

record UnpackedUndoRecord =
  uur_type :: "8 word"
  uur_prevxid :: TransactionId
  uur_cid :: CommandId
  uur_blkprev :: UndoRecPtr
  uur_payload :: ItemPointerData
  uur_tuple :: ZHeapTupleHeaderData

record SnapshotData =
  curcid :: CommandId
  xmin :: TransactionId
  xmax :: TransactionId
  speculativeToken :: "32 word"

text \<open>The page's special area: the transaction slots, each an xid and an undo pointer.\<close>

type_synonym ZHeapPageOpaque = "(TransactionId \<times> UndoRecPtr) list"

datatype HTSU_Result =
  HeapTupleMayBeUpdated
| HeapTupleInvisible
| HeapTupleSelfUpdated
| HeapTupleUpdated
| HeapTupleBeingUpdated

text \<open>
  Everything ztqual.c uses and does not define: the constants and macros of the zheap
  and transaction headers, the horizon \<open>RecentGlobalXmin\<close>, the undo reader, the tuple
  and page accessors and the transaction manager. They are the fields of one record, so
  that every theorem below holds for whatever they are. \<open>USE_ASSERT_CHECKING\<close> says
  whether \<^verbatim>\<open>Assert\<close> is compiled in. \<open>PageGetSpecialPointer\<close> stands for
  \<^verbatim>\<open>PageGetSpecialPointer(BufferGetPage(buffer))\<close>; \<open>ZHeapTupleGetCtid\<close> gives the item
  pointer that the C function stores through its third argument.
\<close>

record zheap_env =
  USE_ASSERT_CHECKING :: bool
  InvalidTransactionId :: TransactionId
  InvalidCommandId :: CommandId
  InvalidUndoRecPtr :: UndoRecPtr
  InvalidOid :: Oid
  ZHTUP_SLOT_FROZEN :: int
  UNDO_INVALID_XACT_SLOT :: "8 word"
  UNDO_UPDATE :: "8 word"
  ZHEAP_DELETED :: "16 word"
  ZHEAP_UPDATED :: "16 word"
  ZHEAP_INPLACE_UPDATED :: "16 word"
  ZHEAP_XID_LOCK_ONLY :: "16 word"
  ZHEAP_INVALID_XACT_SLOT :: "16 word"
  ZHEAP_XID_IS_LOCKED_ONLY :: "16 word \<Rightarrow> bool"
  RecentGlobalXmin :: TransactionId
  ItemPointerIsValid :: "ItemPointerData \<Rightarrow> bool"
  UndoFetchRecord ::
    "UndoRecPtr \<Rightarrow> BlockNumber \<Rightarrow> OffsetNumber \<Rightarrow> TransactionId \<Rightarrow> UnpackedUndoRecord option"
  CopyTupleFromUndoRecord :: "UnpackedUndoRecord \<Rightarrow> ZHeapTupleData \<Rightarrow> bool \<Rightarrow> ZHeapTupleData"
  PageGetSpecialPointer :: "Buffer \<Rightarrow> ZHeapPageOpaque"
  ZHeapTupleHeaderGetXactSlot :: "ZHeapTupleHeaderData \<Rightarrow> int"
  ZHeapTupleHeaderGetRawXid :: "ZHeapTupleHeaderData \<Rightarrow> ZHeapPageOpaque \<Rightarrow> TransactionId"
  ZHeapTupleHeaderGetRawUndoPtr :: "ZHeapTupleHeaderData \<Rightarrow> ZHeapPageOpaque \<Rightarrow> UndoRecPtr"
  ZHeapTupleGetCid :: "ZHeapTupleData \<Rightarrow> Buffer \<Rightarrow> CommandId"
  ZHeapTupleGetCtid :: "ZHeapTupleData \<Rightarrow> Buffer \<Rightarrow> ItemPointerData"
  TransactionIdPrecedes :: "TransactionId \<Rightarrow> TransactionId \<Rightarrow> bool"
  TransactionIdIsCurrentTransactionId :: "TransactionId \<Rightarrow> bool"
  TransactionIdIsInProgress :: "TransactionId \<Rightarrow> bool"
  TransactionIdDidCommit :: "TransactionId \<Rightarrow> bool"
  XidInMVCCSnapshot :: "TransactionId \<Rightarrow> SnapshotData \<Rightarrow> bool"

section \<open>Outcomes\<close>

text \<open>
  A call returns a value or stops the backend: on a failed \<^verbatim>\<open>Assert\<close> (when assertions
  are compiled in) or on reading through a null record pointer. The loops and the
  recursion of the C code need not end, so every function that has one takes a bound on
  the iterations of each loop and on the depth of the recursion; \<open>Unfinished\<close> is the
  call that has used the bound up. Besides its outcome a call yields the undo pointers
  it handed to \<^verbatim>\<open>UndoFetchRecord\<close>, in order.
\<close>

datatype failure = AssertionFailure | NullPointerDereference

datatype 'a outcome = Returns 'a | Fails failure | Unfinished

type_synonym 'a run = "'a outcome \<times> UndoRecPtr list"

definition after_fetches :: "UndoRecPtr list \<Rightarrow> 'a run \<Rightarrow> 'a run" where
  "after_fetches fetched r = (fst r, fetched @ snd r)"

definition assert_passes :: "zheap_env \<Rightarrow> bool \<Rightarrow> bool" where
  "assert_passes env c = (if USE_ASSERT_CHECKING env then c else True)"

definition infomask_has :: "ZHeapTupleHeaderData \<Rightarrow> 16 word \<Rightarrow> bool" where
  "infomask_has tuple flag = (t_infomask tuple AND flag \<noteq> 0)"

section \<open>The undo walker\<close>

text \<open>
  The label \<^verbatim>\<open>fetch_undo_record\<close> of both walkers: fetch the record at \<open>urec_ptr\<close>
  and, while it is a record of slot reuse, go on to its \<open>uur_blkprev\<close>. The record's
  type is read without looking whether the fetch returned a record.
\<close>

fun fetch_undo_record ::
  "nat \<Rightarrow> zheap_env \<Rightarrow> UndoRecPtr \<Rightarrow> ZHeapTupleData \<Rightarrow> TransactionId \<Rightarrow> UnpackedUndoRecord run"
where
  "fetch_undo_record 0 env urec_ptr zhtup prev_undo_xid = (Unfinished, [])"
| "fetch_undo_record (Suc n) env urec_ptr zhtup prev_undo_xid =
    (case UndoFetchRecord env urec_ptr (ip_blkid (t_self zhtup)) (ip_posid (t_self zhtup))
            prev_undo_xid of
       None \<Rightarrow> (Fails NullPointerDereference, [urec_ptr])
     | Some urec \<Rightarrow>
         if uur_type urec = UNDO_INVALID_XACT_SLOT env
         then after_fetches [urec_ptr]
                (fetch_undo_record n env (uur_blkprev urec) zhtup prev_undo_xid)
         else (Returns urec, [urec_ptr]))"

text \<open>
  The do-while loop of both walkers, entered for an undo tuple that carries
  \<open>ZHEAP_INVALID_XACT_SLOT\<close>: \<open>undo_tup_xid\<close> is the xid captured before the loop,
  \<open>prev_urec_ptr\<close> the pointer of the next fetch. The result is the xid, the cid and
  the \<open>prev_urec_ptr\<close> the loop leaves behind.
\<close>

fun undo_tup_xact_loop ::
  "nat \<Rightarrow> zheap_env \<Rightarrow> ZHeapTupleData \<Rightarrow> TransactionId \<Rightarrow> UndoRecPtr \<Rightarrow>
   (TransactionId \<times> CommandId \<times> UndoRecPtr) run"
where
  "undo_tup_xact_loop 0 env undo_tup undo_tup_xid prev_urec_ptr = (Unfinished, [])"
| "undo_tup_xact_loop (Suc n) env undo_tup undo_tup_xid prev_urec_ptr =
    (case UndoFetchRecord env prev_urec_ptr (ip_blkid (t_self undo_tup))
            (ip_posid (t_self undo_tup)) (InvalidTransactionId env) of
       None \<Rightarrow>
         (Returns (InvalidTransactionId env, InvalidCommandId env, prev_urec_ptr), [prev_urec_ptr])
     | Some urec \<Rightarrow>
         if TransactionIdPrecedes env (uur_prevxid urec) (RecentGlobalXmin env)
         then (Returns (InvalidTransactionId env, InvalidCommandId env, prev_urec_ptr),
                    [prev_urec_ptr])
         else if uur_type urec \<noteq> UNDO_INVALID_XACT_SLOT env \<or> undo_tup_xid \<noteq> uur_prevxid urec
         then after_fetches [prev_urec_ptr]
                (undo_tup_xact_loop n env undo_tup undo_tup_xid (uur_blkprev urec))
         else (Returns (uur_prevxid urec, uur_cid urec, uur_blkprev urec), [prev_urec_ptr]))"

text \<open>
  What both walkers do between the materialized undo tuple and the visibility decision:
  the slot switch, then the xid, cid and pointer of the undo tuple's last change.
\<close>

definition undo_tup_identity ::
  "nat \<Rightarrow> zheap_env \<Rightarrow> ZHeapTupleData \<Rightarrow> UnpackedUndoRecord \<Rightarrow> ZHeapTupleData \<Rightarrow> Buffer \<Rightarrow>
   (TransactionId \<times> CommandId \<times> UndoRecPtr) run"
where
  "undo_tup_identity fuel env zhtup urec undo_tup buffer =
    (let opaque = PageGetSpecialPointer env buffer;
         prev_trans_slot_id = ZHeapTupleHeaderGetXactSlot env (t_data zhtup);
         trans_slot_id = ZHeapTupleHeaderGetXactSlot env (t_data undo_tup);
         xid = uur_prevxid urec;
         prev_urec_ptr =
           (if trans_slot_id \<noteq> ZHTUP_SLOT_FROZEN env \<and> trans_slot_id \<noteq> prev_trans_slot_id
            then ZHeapTupleHeaderGetRawUndoPtr env (t_data undo_tup) opaque
            else uur_blkprev urec)
     in if ZHeapTupleHeaderGetXactSlot env (t_data undo_tup) \<noteq> ZHTUP_SLOT_FROZEN env
           \<and> \<not> TransactionIdPrecedes env xid (RecentGlobalXmin env)
        then if infomask_has (t_data undo_tup) (ZHEAP_INVALID_XACT_SLOT env)
             then undo_tup_xact_loop fuel env undo_tup xid prev_urec_ptr
             else (Returns (xid, ZHeapTupleGetCid env undo_tup buffer, prev_urec_ptr), [])
        else (Returns (xid, InvalidCommandId env, prev_urec_ptr), []))"

text \<open>
  \<open>undo_oper\<close> of both walkers: the C variable is an \<^verbatim>\<open>int\<close> that starts at \<open>-1\<close>.
\<close>

definition undo_oper_of :: "zheap_env \<Rightarrow> ZHeapTupleData \<Rightarrow> int" where
  "undo_oper_of env undo_tup =
    (if infomask_has (t_data undo_tup) (ZHEAP_INPLACE_UPDATED env)
     then uint (ZHEAP_INPLACE_UPDATED env)
     else if infomask_has (t_data undo_tup) (ZHEAP_XID_LOCK_ONLY env)
     then uint (ZHEAP_XID_LOCK_ONLY env)
     else - 1)"

definition undo_tup_assert :: "zheap_env \<Rightarrow> ZHeapTupleData \<Rightarrow> bool" where
  "undo_tup_assert env undo_tup =
    (if infomask_has (t_data undo_tup) (ZHEAP_INPLACE_UPDATED env) then True
     else if infomask_has (t_data undo_tup) (ZHEAP_XID_LOCK_ONLY env) then True
     else assert_passes env
            (\<not> infomask_has (t_data undo_tup) (ZHEAP_DELETED env)
             \<or> \<not> infomask_has (t_data undo_tup) (ZHEAP_UPDATED env)))"

fun GetTupleFromUndo ::
  "nat \<Rightarrow> zheap_env \<Rightarrow> UndoRecPtr \<Rightarrow> ZHeapTupleData \<Rightarrow> SnapshotData \<Rightarrow> Buffer \<Rightarrow> TransactionId \<Rightarrow>
   ZHeapTupleData option run"
where
  "GetTupleFromUndo 0 env urec_ptr zhtup snapshot buffer prev_undo_xid = (Unfinished, [])"
| "GetTupleFromUndo (Suc n) env urec_ptr zhtup snapshot buffer prev_undo_xid =
    (case fetch_undo_record (Suc n) env urec_ptr zhtup prev_undo_xid of
       (Unfinished, fetched) \<Rightarrow> (Unfinished, fetched)
     | (Fails f, fetched) \<Rightarrow> (Fails f, fetched)
     | (Returns urec, fetched) \<Rightarrow>
         (let undo_tup = CopyTupleFromUndoRecord env urec zhtup True;
              trans_slot_id = ZHeapTupleHeaderGetXactSlot env (t_data undo_tup);
              undo_oper = undo_oper_of env undo_tup
          in if \<not> undo_tup_assert env undo_tup then (Fails AssertionFailure, fetched)
             else
               (case undo_tup_identity (Suc n) env zhtup urec undo_tup buffer of
                  (Unfinished, fetched') \<Rightarrow> (Unfinished, fetched @ fetched')
                | (Fails f, fetched') \<Rightarrow> (Fails f, fetched @ fetched')
                | (Returns (xid, cid, prev_urec_ptr), fetched') \<Rightarrow>
                    after_fetches (fetched @ fetched')
                      (if trans_slot_id = ZHTUP_SLOT_FROZEN env
                          \<or> TransactionIdPrecedes env xid (RecentGlobalXmin env)
                       then (Returns (Some undo_tup), [])
                       else if undo_oper = uint (ZHEAP_INPLACE_UPDATED env)
                               \<or> undo_oper = uint (ZHEAP_XID_LOCK_ONLY env)
                       then
                         (if TransactionIdIsCurrentTransactionId env xid
                          then
                            (if undo_oper = uint (ZHEAP_XID_LOCK_ONLY env)
                             then (Returns (Some undo_tup), [])
                             else if cid \<ge> curcid snapshot
                             then GetTupleFromUndo n env prev_urec_ptr undo_tup snapshot buffer xid
                             else (Returns (Some undo_tup), []))
                          else if XidInMVCCSnapshot env xid snapshot
                          then GetTupleFromUndo n env prev_urec_ptr undo_tup snapshot buffer xid
                          else if TransactionIdDidCommit env xid
                          then (Returns (Some undo_tup), [])
                          else GetTupleFromUndo n env prev_urec_ptr undo_tup snapshot buffer xid)
                       else
                         (if TransactionIdIsCurrentTransactionId env xid
                          then
                            (if cid \<ge> curcid snapshot then (Returns None, [])
                             else (Returns (Some undo_tup), []))
                          else if XidInMVCCSnapshot env xid snapshot then (Returns None, [])
                          else if TransactionIdDidCommit env xid
                          then (Returns (Some undo_tup), [])
                          else (Returns None, []))))))"

text \<open>
  \<open>UndoTupleSatisfiesUpdate\<close> returns its \<^verbatim>\<open>bool\<close> together with what it leaves in
  \<^verbatim>\<open>*ctid\<close> (\<open>None\<close> for a null \<^verbatim>\<open>ctid\<close>) and in \<^verbatim>\<open>*in_place_updated_or_locked\<close>.
\<close>

fun UndoTupleSatisfiesUpdate ::
  "nat \<Rightarrow> zheap_env \<Rightarrow> UndoRecPtr \<Rightarrow> ZHeapTupleData \<Rightarrow> CommandId \<Rightarrow> Buffer \<Rightarrow>
   ItemPointerData option \<Rightarrow> TransactionId \<Rightarrow> bool \<Rightarrow> bool \<Rightarrow>
   (bool \<times> ItemPointerData option \<times> bool) run"
where
  "UndoTupleSatisfiesUpdate 0 env urec_ptr zhtup curcid' buffer ctid prev_undo_xid free_zhtup
     in_place_updated_or_locked = (Unfinished, [])"
| "UndoTupleSatisfiesUpdate (Suc n) env urec_ptr zhtup curcid' buffer ctid prev_undo_xid free_zhtup
     in_place_updated_or_locked =
    (case fetch_undo_record (Suc n) env urec_ptr zhtup prev_undo_xid of
       (Unfinished, fetched) \<Rightarrow> (Unfinished, fetched)
     | (Fails f, fetched) \<Rightarrow> (Fails f, fetched)
     | (Returns urec, fetched) \<Rightarrow>
         (let undo_tup = CopyTupleFromUndoRecord env urec zhtup free_zhtup;
              trans_slot_id = ZHeapTupleHeaderGetXactSlot env (t_data undo_tup);
              ctid1 =
                (case ctid of
                   None \<Rightarrow> None
                 | Some old \<Rightarrow>
                     if uur_type urec = UNDO_UPDATE env then Some (uur_payload urec)
                     else Some (t_self undo_tup));
              undo_oper = undo_oper_of env undo_tup;
              in_place1 =
                (if infomask_has (t_data undo_tup) (ZHEAP_INPLACE_UPDATED env) then True
                 else if infomask_has (t_data undo_tup) (ZHEAP_XID_LOCK_ONLY env) then True
                 else in_place_updated_or_locked)
          in if \<not> undo_tup_assert env undo_tup then (Fails AssertionFailure, fetched)
             else
               (case undo_tup_identity (Suc n) env zhtup urec undo_tup buffer of
                  (Unfinished, fetched') \<Rightarrow> (Unfinished, fetched @ fetched')
                | (Fails f, fetched') \<Rightarrow> (Fails f, fetched @ fetched')
                | (Returns (xid, cid, prev_urec_ptr), fetched') \<Rightarrow>
                    after_fetches (fetched @ fetched')
                      (if trans_slot_id = ZHTUP_SLOT_FROZEN env
                          \<or> TransactionIdPrecedes env xid (RecentGlobalXmin env)
                       then (Returns (True, ctid1, in_place1), [])
                       else if undo_oper = uint (ZHEAP_INPLACE_UPDATED env)
                               \<or> undo_oper = uint (ZHEAP_XID_LOCK_ONLY env)
                       then
                         (if TransactionIdIsCurrentTransactionId env xid
                          then
                            (if undo_oper = uint (ZHEAP_XID_LOCK_ONLY env)
                             then (Returns (True, ctid1, in_place1), [])
                             else if cid \<ge> curcid'
                             then UndoTupleSatisfiesUpdate n env prev_urec_ptr undo_tup curcid'
                                    buffer ctid1 xid True in_place1
                             else (Returns (True, ctid1, in_place1), []))
                          else if TransactionIdIsInProgress env xid
                          then UndoTupleSatisfiesUpdate n env prev_urec_ptr undo_tup curcid'
                                 buffer ctid1 xid True in_place1
                          else if TransactionIdDidCommit env xid
                          then (Returns (True, ctid1, in_place1), [])
                          else UndoTupleSatisfiesUpdate n env prev_urec_ptr undo_tup curcid'
                                 buffer ctid1 xid True in_place1)
                       else
                         (if TransactionIdIsCurrentTransactionId env xid
                          then
                            (if cid \<ge> curcid' then (Returns (False, ctid1, in_place1), [])
                             else (Returns (True, ctid1, in_place1), []))
                          else if TransactionIdIsInProgress env xid
                          then (Returns (False, ctid1, in_place1), [])
                          else if TransactionIdDidCommit env xid
                          then (Returns (True, ctid1, in_place1), [])
                          else (Returns (False, ctid1, in_place1), []))))))"

section \<open>The transaction information of the tuple under test\<close>

text \<open>
  Each predicate starts with the same block. For a tuple that carries
  \<open>ZHEAP_INVALID_XACT_SLOT\<close> a do-while loop reads undo records from the slot's undo
  pointer until one of type \<open>UNDO_INVALID_XACT_SLOT\<close> or a discarded one.
  \<open>ZHeapTupleSatisfiesMVCC\<close> and \<open>ZHeapTupleSatisfiesUpdate\<close> keep the xid, the cid
  and the pointer; \<open>ZHeapTupleIsSurelyDead\<close> and \<open>ZHeapTupleSatisfiesDirty\<close> keep the
  xid and the pointer.
\<close>

fun xid_cid_loop ::
  "nat \<Rightarrow> zheap_env \<Rightarrow> ZHeapTupleData \<Rightarrow> UndoRecPtr \<Rightarrow>
   (TransactionId \<times> CommandId \<times> UndoRecPtr) run"
where
  "xid_cid_loop 0 env zhtup urec_ptr = (Unfinished, [])"
| "xid_cid_loop (Suc n) env zhtup urec_ptr =
    (case UndoFetchRecord env urec_ptr (ip_blkid (t_self zhtup)) (ip_posid (t_self zhtup))
            (InvalidTransactionId env) of
       None \<Rightarrow> (Returns (InvalidTransactionId env, InvalidCommandId env, urec_ptr), [urec_ptr])
     | Some urec \<Rightarrow>
         if uur_type urec \<noteq> UNDO_INVALID_XACT_SLOT env
         then after_fetches [urec_ptr]
                (xid_cid_loop n env zhtup (uur_blkprev urec))
         else (Returns (uur_prevxid urec, uur_cid urec, uur_blkprev urec), [urec_ptr]))"

fun xid_loop ::
  "nat \<Rightarrow> zheap_env \<Rightarrow> ZHeapTupleData \<Rightarrow> UndoRecPtr \<Rightarrow>
   (TransactionId \<times> UndoRecPtr) run"
where
  "xid_loop 0 env zhtup urec_ptr = (Unfinished, [])"
| "xid_loop (Suc n) env zhtup urec_ptr =
    (case UndoFetchRecord env urec_ptr (ip_blkid (t_self zhtup)) (ip_posid (t_self zhtup))
            (InvalidTransactionId env) of
       None \<Rightarrow> (Returns (InvalidTransactionId env, urec_ptr), [urec_ptr])
     | Some urec \<Rightarrow>
         if uur_type urec \<noteq> UNDO_INVALID_XACT_SLOT env
         then after_fetches [urec_ptr]
                (xid_loop n env zhtup (uur_blkprev urec))
         else (Returns (uur_prevxid urec, uur_blkprev urec), [urec_ptr]))"

text \<open>
  The block of \<open>ZHeapTupleSatisfiesMVCC\<close>; \<open>ZHeapTupleSatisfiesUpdate\<close> has the same
  with \<^verbatim>\<open>*xid\<close> and \<^verbatim>\<open>*cid\<close>, where \<open>cid_init\<close> is what the variable holds before
  (\<open>InvalidCommandId\<close> in MVCC, the caller's \<^verbatim>\<open>*cid\<close> in Update).
\<close>

definition xid_cid_info ::
  "nat \<Rightarrow> zheap_env \<Rightarrow> ZHeapTupleData \<Rightarrow> Buffer \<Rightarrow> CommandId \<Rightarrow>
   (TransactionId \<times> CommandId \<times> UndoRecPtr) run"
where
  "xid_cid_info fuel env zhtup buffer cid_init =
    (let opaque = PageGetSpecialPointer env buffer; tuple = t_data zhtup
     in if ZHeapTupleHeaderGetXactSlot env tuple \<noteq> ZHTUP_SLOT_FROZEN env
        then if infomask_has tuple (ZHEAP_INVALID_XACT_SLOT env)
             then xid_cid_loop fuel env zhtup (ZHeapTupleHeaderGetRawUndoPtr env tuple opaque)
             else (Returns (ZHeapTupleHeaderGetRawXid env tuple opaque,
                         ZHeapTupleGetCid env zhtup buffer,
                         ZHeapTupleHeaderGetRawUndoPtr env tuple opaque), [])
        else (Returns (InvalidTransactionId env, cid_init, InvalidUndoRecPtr env), []))"

text \<open>The block of \<open>ZHeapTupleIsSurelyDead\<close> and of \<open>ZHeapTupleSatisfiesDirty\<close>.\<close>

definition xid_info ::
  "nat \<Rightarrow> zheap_env \<Rightarrow> ZHeapTupleData \<Rightarrow> Buffer \<Rightarrow> TransactionId run"
where
  "xid_info fuel env zhtup buffer =
    (let opaque = PageGetSpecialPointer env buffer; tuple = t_data zhtup
     in if ZHeapTupleHeaderGetXactSlot env tuple \<noteq> ZHTUP_SLOT_FROZEN env
        then if infomask_has tuple (ZHEAP_INVALID_XACT_SLOT env)
             then (case xid_loop fuel env zhtup
                          (ZHeapTupleHeaderGetRawUndoPtr env tuple opaque) of
                     (Unfinished, fetched) \<Rightarrow> (Unfinished, fetched)
                   | (Fails f, fetched) \<Rightarrow> (Fails f, fetched)
                   | (Returns (xid, urec_ptr), fetched) \<Rightarrow> (Returns xid, fetched))
             else (Returns (ZHeapTupleHeaderGetRawXid env tuple opaque), [])
        else (Returns (InvalidTransactionId env), []))"

text \<open>The two assertions at the head of every predicate.\<close>

definition entry_asserts :: "zheap_env \<Rightarrow> ZHeapTupleData \<Rightarrow> bool" where
  "entry_asserts env zhtup =
    (assert_passes env (ItemPointerIsValid env (t_self zhtup))
     \<and> assert_passes env (t_tableOid zhtup \<noteq> InvalidOid env))"

text \<open>
  The test that opens the first two branches of every predicate, and the test of the
  all-visible shortcut.
\<close>

definition deleted_or_updated :: "zheap_env \<Rightarrow> ZHeapTupleHeaderData \<Rightarrow> bool" where
  "deleted_or_updated env tuple =
    (infomask_has tuple (ZHEAP_DELETED env) \<or> infomask_has tuple (ZHEAP_UPDATED env))"

definition inplace_updated_or_locked :: "zheap_env \<Rightarrow> ZHeapTupleHeaderData \<Rightarrow> bool" where
  "inplace_updated_or_locked env tuple =
    (infomask_has tuple (ZHEAP_INPLACE_UPDATED env)
     \<or> infomask_has tuple (ZHEAP_XID_LOCK_ONLY env))"

definition all_visible :: "zheap_env \<Rightarrow> ZHeapTupleHeaderData \<Rightarrow> TransactionId \<Rightarrow> bool" where
  "all_visible env tuple xid =
    (ZHeapTupleHeaderGetXactSlot env tuple = ZHTUP_SLOT_FROZEN env
     \<or> TransactionIdPrecedes env xid (RecentGlobalXmin env))"

section \<open>The visibility predicates\<close>

text \<open>
  \<open>ZHeapTupleSatisfiesMVCC\<close> returns the visible version or \<^verbatim>\<open>NULL\<close> (\<open>None\<close>);
  it never looks at its \<^verbatim>\<open>ctid\<close>.
\<close>

definition ZHeapTupleSatisfiesMVCC ::
  "nat \<Rightarrow> zheap_env \<Rightarrow> ZHeapTupleData \<Rightarrow> SnapshotData \<Rightarrow> Buffer \<Rightarrow> ItemPointerData option \<Rightarrow>
   ZHeapTupleData option run"
where
  "ZHeapTupleSatisfiesMVCC fuel env zhtup snapshot buffer ctid =
    (let tuple = t_data zhtup
     in if \<not> entry_asserts env zhtup then (Fails AssertionFailure, [])
        else
          (case xid_cid_info fuel env zhtup buffer (InvalidCommandId env) of
             (Unfinished, fetched) \<Rightarrow> (Unfinished, fetched)
           | (Fails f, fetched) \<Rightarrow> (Fails f, fetched)
           | (Returns (xid, cid, urec_ptr), fetched) \<Rightarrow>
               after_fetches fetched
                 (if deleted_or_updated env tuple
                  then
                    (if all_visible env tuple xid then (Returns None, [])
                     else if TransactionIdIsCurrentTransactionId env xid
                     then
                       (if cid \<ge> curcid snapshot
                        then GetTupleFromUndo fuel env urec_ptr zhtup snapshot buffer
                               (InvalidTransactionId env)
                        else (Returns None, []))
                     else if XidInMVCCSnapshot env xid snapshot
                     then GetTupleFromUndo fuel env urec_ptr zhtup snapshot buffer
                            (InvalidTransactionId env)
                     else if TransactionIdDidCommit env xid then (Returns None, [])
                     else GetTupleFromUndo fuel env urec_ptr zhtup snapshot buffer
                            (InvalidTransactionId env))
                  else if inplace_updated_or_locked env tuple
                  then
                    (if all_visible env tuple xid then (Returns (Some zhtup), [])
                     else if TransactionIdIsCurrentTransactionId env xid
                     then
                       (if ZHEAP_XID_IS_LOCKED_ONLY env (t_infomask tuple)
                        then (Returns (Some zhtup), [])
                        else if cid \<ge> curcid snapshot
                        then GetTupleFromUndo fuel env urec_ptr zhtup snapshot buffer
                               (InvalidTransactionId env)
                        else (Returns (Some zhtup), []))
                     else if XidInMVCCSnapshot env xid snapshot
                     then GetTupleFromUndo fuel env urec_ptr zhtup snapshot buffer
                            (InvalidTransactionId env)
                     else if TransactionIdDidCommit env xid then (Returns (Some zhtup), [])
                     else GetTupleFromUndo fuel env urec_ptr zhtup snapshot buffer
                            (InvalidTransactionId env))
                  else if all_visible env tuple xid then (Returns (Some zhtup), [])
                  else if TransactionIdIsCurrentTransactionId env xid
                  then
                    (if cid \<ge> curcid snapshot then (Returns None, [])
                     else (Returns (Some zhtup), []))
                  else if XidInMVCCSnapshot env xid snapshot then (Returns None, [])
                  else if TransactionIdDidCommit env xid then (Returns (Some zhtup), [])
                  else (Returns None, []))))"

text \<open>
  \<open>ZHeapTupleSatisfiesUpdate\<close> returns its result with what it leaves in \<^verbatim>\<open>*xid\<close>,
  \<^verbatim>\<open>*cid\<close>, \<^verbatim>\<open>*ctid\<close> and \<^verbatim>\<open>*in_place_updated_or_locked\<close>; \<open>cid_init\<close> is the
  caller's \<^verbatim>\<open>*cid\<close> at the call.
\<close>

definition update_result ::
  "HTSU_Result \<Rightarrow> TransactionId \<Rightarrow> CommandId \<Rightarrow> (bool \<times> ItemPointerData option \<times> bool) run \<Rightarrow>
   (HTSU_Result \<times> TransactionId \<times> CommandId \<times> ItemPointerData option \<times> bool) run"
where
  "update_result if_visible xid cid r =
    (case r of
       (Unfinished, fetched) \<Rightarrow> (Unfinished, fetched)
     | (Fails f, fetched) \<Rightarrow> (Fails f, fetched)
     | (Returns (visible, ctid, in_place), fetched) \<Rightarrow>
         (Returns (if visible then if_visible else HeapTupleInvisible, xid, cid, ctid,
                        in_place), fetched))"

definition ZHeapTupleSatisfiesUpdate ::
  "nat \<Rightarrow> zheap_env \<Rightarrow> ZHeapTupleData \<Rightarrow> CommandId \<Rightarrow> Buffer \<Rightarrow> ItemPointerData option \<Rightarrow>
   CommandId \<Rightarrow> bool \<Rightarrow> bool \<Rightarrow> SnapshotData \<Rightarrow>
   (HTSU_Result \<times> TransactionId \<times> CommandId \<times> ItemPointerData option \<times> bool) run"
where
  "ZHeapTupleSatisfiesUpdate fuel env zhtup curcid' buffer ctid cid_init free_zhtup lock_allowed
     snapshot =
    (let opaque = PageGetSpecialPointer env buffer; tuple = t_data zhtup
     in if \<not> entry_asserts env zhtup then (Fails AssertionFailure, [])
        else
          (case xid_cid_info fuel env zhtup buffer cid_init of
             (Unfinished, fetched) \<Rightarrow> (Unfinished, fetched)
           | (Fails f, fetched) \<Rightarrow> (Fails f, fetched)
           | (Returns (xid, cid, urec_ptr), fetched) \<Rightarrow>
               after_fetches fetched
                 (if deleted_or_updated env tuple
                  then
                    (if \<not> assert_passes env
                            (\<not> (ZHeapTupleHeaderGetXactSlot env tuple = ZHTUP_SLOT_FROZEN env
                                \<and> TransactionIdPrecedes env xid (RecentGlobalXmin env)))
                     then (Fails AssertionFailure, [])
                     else if TransactionIdIsCurrentTransactionId env xid
                     then
                       (if cid \<ge> curcid'
                        then update_result HeapTupleSelfUpdated xid cid
                               (UndoTupleSatisfiesUpdate fuel env urec_ptr zhtup curcid' buffer ctid
                                  (InvalidTransactionId env) free_zhtup False)
                        else (Returns (HeapTupleInvisible, xid, cid, ctid, False), []))
                     else if TransactionIdIsInProgress env xid
                     then update_result HeapTupleBeingUpdated xid cid
                            (UndoTupleSatisfiesUpdate fuel env urec_ptr zhtup curcid' buffer ctid
                               (InvalidTransactionId env) free_zhtup False)
                     else if TransactionIdDidCommit env xid
                     then (Returns (HeapTupleUpdated, xid, cid,
                                  (if infomask_has tuple (ZHEAP_UPDATED env) \<and> ctid \<noteq> None
                                   then Some (ZHeapTupleGetCtid env zhtup buffer) else ctid),
                                  False), [])
                     else update_result HeapTupleMayBeUpdated xid cid
                            (UndoTupleSatisfiesUpdate fuel env
                               (ZHeapTupleHeaderGetRawUndoPtr env tuple opaque) zhtup curcid' buffer
                               ctid (InvalidTransactionId env) free_zhtup False))
                  else if inplace_updated_or_locked env tuple
                  then
                    (if all_visible env tuple xid
                     then (Returns (HeapTupleMayBeUpdated, xid, cid, ctid, True), [])
                     else if TransactionIdIsCurrentTransactionId env xid
                     then
                       (if ZHEAP_XID_IS_LOCKED_ONLY env (t_infomask tuple)
                        then (Returns (HeapTupleBeingUpdated, xid, cid, ctid, True), [])
                        else if cid \<ge> curcid'
                        then update_result HeapTupleSelfUpdated xid cid
                               (UndoTupleSatisfiesUpdate fuel env urec_ptr zhtup curcid' buffer ctid
                                  (InvalidTransactionId env) free_zhtup True)
                        else (Returns (HeapTupleMayBeUpdated, xid, cid, ctid, True), []))
                     else if TransactionIdIsInProgress env xid
                     then update_result HeapTupleBeingUpdated xid cid
                            (UndoTupleSatisfiesUpdate fuel env urec_ptr zhtup curcid' buffer ctid
                               (InvalidTransactionId env) free_zhtup True)
                     else if TransactionIdDidCommit env xid
                     then
                       (if lock_allowed \<or> \<not> XidInMVCCSnapshot env xid snapshot
                        then (Returns (HeapTupleMayBeUpdated, xid, cid, ctid, True), [])
                        else (Returns (HeapTupleUpdated, xid, cid, ctid, True), []))
                     else update_result HeapTupleMayBeUpdated xid cid
                            (UndoTupleSatisfiesUpdate fuel env urec_ptr zhtup curcid' buffer ctid
                               (InvalidTransactionId env) free_zhtup True))
                  else if all_visible env tuple xid
                  then (Returns (HeapTupleMayBeUpdated, xid, cid, ctid, False), [])
                  else if TransactionIdIsCurrentTransactionId env xid
                  then
                    (if cid \<ge> curcid'
                     then (Returns (HeapTupleInvisible, xid, cid, ctid, False), [])
                     else (Returns (HeapTupleMayBeUpdated, xid, cid, ctid, False), []))
                  else if TransactionIdIsInProgress env xid
                  then (Returns (HeapTupleInvisible, xid, cid, ctid, False), [])
                  else if TransactionIdDidCommit env xid
                  then (Returns (HeapTupleMayBeUpdated, xid, cid, ctid, False), [])
                  else (Returns (HeapTupleInvisible, xid, cid, ctid, False), []))))"

text \<open>\<open>ZHeapTupleIsSurelyDead\<close> never reads its \<open>OldestXmin\<close>.\<close>

definition ZHeapTupleIsSurelyDead ::
  "nat \<Rightarrow> zheap_env \<Rightarrow> ZHeapTupleData \<Rightarrow> TransactionId \<Rightarrow> Buffer \<Rightarrow> bool run"
where
  "ZHeapTupleIsSurelyDead fuel env zhtup OldestXmin buffer =
    (let tuple = t_data zhtup
     in if \<not> entry_asserts env zhtup then (Fails AssertionFailure, [])
        else
          (case xid_info fuel env zhtup buffer of
             (Unfinished, fetched) \<Rightarrow> (Unfinished, fetched)
           | (Fails f, fetched) \<Rightarrow> (Fails f, fetched)
           | (Returns xid, fetched) \<Rightarrow>
               if deleted_or_updated env tuple
               then (if all_visible env tuple xid then (Returns True, fetched)
                     else (Returns False, fetched))
               else (Returns False, fetched)))"

text \<open>
  \<open>ZHeapTupleSatisfiesDirty\<close> returns the visible version or \<^verbatim>\<open>NULL\<close>, with the
  snapshot and the \<^verbatim>\<open>*ctid\<close> it leaves behind.
\<close>

definition ZHeapTupleSatisfiesDirty ::
  "nat \<Rightarrow> zheap_env \<Rightarrow> ZHeapTupleData \<Rightarrow> SnapshotData \<Rightarrow> Buffer \<Rightarrow> ItemPointerData option \<Rightarrow>
   (ZHeapTupleData option \<times> SnapshotData \<times> ItemPointerData option) run"
where
  "ZHeapTupleSatisfiesDirty fuel env zhtup snapshot buffer ctid =
    (let tuple = t_data zhtup
     in if \<not> entry_asserts env zhtup then (Fails AssertionFailure, [])
        else
          (let snapshot1 = snapshot\<lparr>xmin := InvalidTransactionId env,
                                     xmax := InvalidTransactionId env,
                                     speculativeToken := 0\<rparr>
           in case xid_info fuel env zhtup buffer of
                (Unfinished, fetched) \<Rightarrow> (Unfinished, fetched)
              | (Fails f, fetched) \<Rightarrow> (Fails f, fetched)
              | (Returns xid, fetched) \<Rightarrow>
                  if deleted_or_updated env tuple
                  then
                    (if \<not> assert_passes env
                            (\<not> (ZHeapTupleHeaderGetXactSlot env tuple = ZHTUP_SLOT_FROZEN env
                                \<and> TransactionIdPrecedes env xid (RecentGlobalXmin env)))
                     then (Fails AssertionFailure, fetched)
                     else if TransactionIdIsCurrentTransactionId env xid
                     then (Returns (None, snapshot1,
                                  (if infomask_has tuple (ZHEAP_UPDATED env) \<and> ctid \<noteq> None
                                   then Some (ZHeapTupleGetCtid env zhtup buffer) else ctid)),
                                fetched)
                     else if TransactionIdIsInProgress env xid
                     then (Returns (Some zhtup, snapshot1\<lparr>xmax := xid\<rparr>, ctid), fetched)
                     else if TransactionIdDidCommit env xid
                     then (Returns (None, snapshot1,
                                  (if infomask_has tuple (ZHEAP_UPDATED env) \<and> ctid \<noteq> None
                                   then Some (ZHeapTupleGetCtid env zhtup buffer) else ctid)),
                                fetched)
                     else if \<not> assert_passes env False then (Fails AssertionFailure, fetched)
                     else (Returns (None, snapshot1, ctid), fetched))
                  else if inplace_updated_or_locked env tuple
                  then
                    (if all_visible env tuple xid
                     then (Returns (Some zhtup, snapshot1, ctid), fetched)
                     else if TransactionIdIsCurrentTransactionId env xid
                     then (Returns (Some zhtup, snapshot1, ctid), fetched)
                     else if TransactionIdIsInProgress env xid
                     then (Returns (Some zhtup,
                                  (if \<not> ZHEAP_XID_IS_LOCKED_ONLY env (t_infomask tuple)
                                   then snapshot1\<lparr>xmax := xid\<rparr> else snapshot1), ctid), fetched)
                     else if TransactionIdDidCommit env xid
                     then (Returns (Some zhtup, snapshot1, ctid), fetched)
                     else if \<not> assert_passes env False then (Fails AssertionFailure, fetched)
                     else (Returns (None, snapshot1, ctid), fetched))
                  else if all_visible env tuple xid
                  then (Returns (Some zhtup, snapshot1, ctid), fetched)
                  else if TransactionIdIsCurrentTransactionId env xid
                  then (Returns (Some zhtup, snapshot1, ctid), fetched)
                  else if TransactionIdIsInProgress env xid
                  then (Returns (Some zhtup, snapshot1\<lparr>xmin := xid\<rparr>, ctid), fetched)
                  else if TransactionIdDidCommit env xid
                  then (Returns (Some zhtup, snapshot1, ctid), fetched)
                  else if \<not> assert_passes env False then (Fails AssertionFailure, fetched)
                  else (Returns (None, snapshot1, ctid), fetched)))"

definition ZHeapTupleSatisfiesAny ::
  "ZHeapTupleData \<Rightarrow> SnapshotData \<Rightarrow> Buffer \<Rightarrow> ItemPointerData option \<Rightarrow> ZHeapTupleData option"
where
  "ZHeapTupleSatisfiesAny zhtup snapshot buffer ctid = Some zhtup"

section \<open>The vocabulary of the claims\<close>

text \<open>
  The four outcomes of a transaction, told apart in the order in which
  \<open>ZHeapTupleSatisfiesUpdate\<close> and \<open>ZHeapTupleSatisfiesDirty\<close> ask the transaction
  manager: current, in progress, committed, and aborted for what is left.
\<close>

datatype xact_outcome = Current | InProgress | Committed | Aborted

definition xact_outcome_of :: "zheap_env \<Rightarrow> TransactionId \<Rightarrow> xact_outcome" where
  "xact_outcome_of env xid =
    (if TransactionIdIsCurrentTransactionId env xid then Current
     else if TransactionIdIsInProgress env xid then InProgress
     else if TransactionIdDidCommit env xid then Committed
     else Aborted)"

text \<open>The snapshot as \<open>ZHeapTupleSatisfiesDirty\<close> sets it on entry.\<close>

definition dirty_entry :: "zheap_env \<Rightarrow> SnapshotData \<Rightarrow> SnapshotData" where
  "dirty_entry env snapshot =
    snapshot\<lparr>xmin := InvalidTransactionId env, xmax := InvalidTransactionId env,
             speculativeToken := 0\<rparr>"

text \<open>
  For the do-while loop of the walkers (lines 127-162 and 350-385). The loop is entered
  at lines 117-120 and 340-343, for an undo tuple whose slot is not the frozen one,
  whose xid does not precede \<open>RecentGlobalXmin\<close> and that carries
  \<open>ZHEAP_INVALID_XACT_SLOT\<close>. Its first fetch is at \<open>prev_urec_ptr\<close> as lines 84 and
  108-110 (294 and 331-333) leave it: the undo pointer of the undo tuple's slot when
  that slot is not the frozen one and differs from the slot of the tuple the walker was
  given, the \<open>uur_blkprev\<close> of the record otherwise.
\<close>

definition loop_entered :: "zheap_env \<Rightarrow> ZHeapTupleData \<Rightarrow> TransactionId \<Rightarrow> bool" where
  "loop_entered env undo_tup xid =
    (ZHeapTupleHeaderGetXactSlot env (t_data undo_tup) \<noteq> ZHTUP_SLOT_FROZEN env
     \<and> \<not> TransactionIdPrecedes env xid (RecentGlobalXmin env)
     \<and> infomask_has (t_data undo_tup) (ZHEAP_INVALID_XACT_SLOT env))"

definition prev_urec_ptr_of ::
  "zheap_env \<Rightarrow> ZHeapTupleData \<Rightarrow> UnpackedUndoRecord \<Rightarrow> ZHeapTupleData \<Rightarrow> Buffer \<Rightarrow> UndoRecPtr"
where
  "prev_urec_ptr_of env zhtup urec undo_tup buffer =
    (if ZHeapTupleHeaderGetXactSlot env (t_data undo_tup) \<noteq> ZHTUP_SLOT_FROZEN env
        \<and> ZHeapTupleHeaderGetXactSlot env (t_data undo_tup)
            \<noteq> ZHeapTupleHeaderGetXactSlot env (t_data zhtup)
     then ZHeapTupleHeaderGetRawUndoPtr env (t_data undo_tup) (PageGetSpecialPointer env buffer)
     else uur_blkprev urec)"

text \<open>
  The record the loop fetches at a pointer, the three conditions under which the loop
  ends with that fetch (the record is discarded, its \<open>uur_prevxid\<close> precedes
  \<open>RecentGlobalXmin\<close>, or it is a record of slot reuse whose \<open>uur_prevxid\<close> is the xid
  captured before the loop), and the xid, cid and pointer the loop leaves behind when
  it ends there.
\<close>

definition loop_fetch :: "zheap_env \<Rightarrow> ZHeapTupleData \<Rightarrow> UndoRecPtr \<Rightarrow> UnpackedUndoRecord option"
where
  "loop_fetch env undo_tup p =
    UndoFetchRecord env p (ip_blkid (t_self undo_tup)) (ip_posid (t_self undo_tup))
      (InvalidTransactionId env)"

definition loop_exits_at ::
  "zheap_env \<Rightarrow> ZHeapTupleData \<Rightarrow> TransactionId \<Rightarrow> UndoRecPtr \<Rightarrow> bool"
where
  "loop_exits_at env undo_tup undo_tup_xid p =
    (case loop_fetch env undo_tup p of
       None \<Rightarrow> True
     | Some urec \<Rightarrow>
         TransactionIdPrecedes env (uur_prevxid urec) (RecentGlobalXmin env)
         \<or> (uur_type urec = UNDO_INVALID_XACT_SLOT env \<and> uur_prevxid urec = undo_tup_xid))"

definition identity_after_exit ::
  "zheap_env \<Rightarrow> ZHeapTupleData \<Rightarrow> UndoRecPtr \<Rightarrow> TransactionId \<times> CommandId \<times> UndoRecPtr"
where
  "identity_after_exit env undo_tup p =
    (case loop_fetch env undo_tup p of
       None \<Rightarrow> (InvalidTransactionId env, InvalidCommandId env, p)
     | Some urec \<Rightarrow>
         if TransactionIdPrecedes env (uur_prevxid urec) (RecentGlobalXmin env)
         then (InvalidTransactionId env, InvalidCommandId env, p)
         else (uur_prevxid urec, uur_cid urec, uur_blkprev urec))"

text \<open>
  What the walkers do with the xid and the cid once they have them. In
  \<open>GetTupleFromUndo\<close> (lines 182-235) the undo tuple is returned, or nothing is, or the
  walk goes on with the call of line 196, 206 or 214, whose run is the last argument
  here. In \<open>UndoTupleSatisfiesUpdate\<close> (lines 405-473) the same with \<^verbatim>\<open>true\<close> and
  \<^verbatim>\<open>false\<close> and the calls of lines 425, 438 and 449; \<open>ctid_of_undo\<close> and
  \<open>in_place_of_undo\<close> are what lines 300-306 and 308-317 have stored through \<^verbatim>\<open>ctid\<close>
  and \<^verbatim>\<open>in_place_updated_or_locked\<close> by then.
\<close>

definition GetTupleFromUndo_decision ::
  "zheap_env \<Rightarrow> SnapshotData \<Rightarrow> ZHeapTupleData \<Rightarrow> TransactionId \<Rightarrow> CommandId \<Rightarrow>
   ZHeapTupleData option run \<Rightarrow> ZHeapTupleData option run"
where
  "GetTupleFromUndo_decision env snapshot undo_tup xid cid deeper =
    (let trans_slot_id = ZHeapTupleHeaderGetXactSlot env (t_data undo_tup);
         undo_oper = undo_oper_of env undo_tup
     in if trans_slot_id = ZHTUP_SLOT_FROZEN env
           \<or> TransactionIdPrecedes env xid (RecentGlobalXmin env)
        then (Returns (Some undo_tup), [])
        else if undo_oper = uint (ZHEAP_INPLACE_UPDATED env)
                \<or> undo_oper = uint (ZHEAP_XID_LOCK_ONLY env)
        then
          (if TransactionIdIsCurrentTransactionId env xid
           then
             (if undo_oper = uint (ZHEAP_XID_LOCK_ONLY env) then (Returns (Some undo_tup), [])
              else if cid \<ge> curcid snapshot then deeper
              else (Returns (Some undo_tup), []))
           else if XidInMVCCSnapshot env xid snapshot then deeper
           else if TransactionIdDidCommit env xid then (Returns (Some undo_tup), [])
           else deeper)
        else
          (if TransactionIdIsCurrentTransactionId env xid
           then
             (if cid \<ge> curcid snapshot then (Returns None, [])
              else (Returns (Some undo_tup), []))
           else if XidInMVCCSnapshot env xid snapshot then (Returns None, [])
           else if TransactionIdDidCommit env xid then (Returns (Some undo_tup), [])
           else (Returns None, [])))"

definition ctid_of_undo ::
  "zheap_env \<Rightarrow> UnpackedUndoRecord \<Rightarrow> ZHeapTupleData \<Rightarrow> ItemPointerData option \<Rightarrow>
   ItemPointerData option"
where
  "ctid_of_undo env urec undo_tup ctid =
    (case ctid of
       None \<Rightarrow> None
     | Some old \<Rightarrow>
         if uur_type urec = UNDO_UPDATE env then Some (uur_payload urec)
         else Some (t_self undo_tup))"

definition in_place_of_undo :: "zheap_env \<Rightarrow> ZHeapTupleData \<Rightarrow> bool \<Rightarrow> bool" where
  "in_place_of_undo env undo_tup in_place_updated_or_locked =
    (if infomask_has (t_data undo_tup) (ZHEAP_INPLACE_UPDATED env) then True
     else if infomask_has (t_data undo_tup) (ZHEAP_XID_LOCK_ONLY env) then True
     else in_place_updated_or_locked)"

definition UndoTupleSatisfiesUpdate_decision ::
  "zheap_env \<Rightarrow> CommandId \<Rightarrow> ZHeapTupleData \<Rightarrow> TransactionId \<Rightarrow> CommandId \<Rightarrow>
   ItemPointerData option \<Rightarrow> bool \<Rightarrow> (bool \<times> ItemPointerData option \<times> bool) run \<Rightarrow>
   (bool \<times> ItemPointerData option \<times> bool) run"
where
  "UndoTupleSatisfiesUpdate_decision env curcid' undo_tup xid cid ctid in_place deeper =
    (let trans_slot_id = ZHeapTupleHeaderGetXactSlot env (t_data undo_tup);
         undo_oper = undo_oper_of env undo_tup
     in if trans_slot_id = ZHTUP_SLOT_FROZEN env
           \<or> TransactionIdPrecedes env xid (RecentGlobalXmin env)
        then (Returns (True, ctid, in_place), [])
        else if undo_oper = uint (ZHEAP_INPLACE_UPDATED env)
                \<or> undo_oper = uint (ZHEAP_XID_LOCK_ONLY env)
        then
          (if TransactionIdIsCurrentTransactionId env xid
           then
             (if undo_oper = uint (ZHEAP_XID_LOCK_ONLY env)
              then (Returns (True, ctid, in_place), [])
              else if cid \<ge> curcid' then deeper
              else (Returns (True, ctid, in_place), []))
           else if TransactionIdIsInProgress env xid then deeper
           else if TransactionIdDidCommit env xid then (Returns (True, ctid, in_place), [])
           else deeper)
        else
          (if TransactionIdIsCurrentTransactionId env xid
           then
             (if cid \<ge> curcid' then (Returns (False, ctid, in_place), [])
              else (Returns (True, ctid, in_place), []))
           else if TransactionIdIsInProgress env xid then (Returns (False, ctid, in_place), [])
           else if TransactionIdDidCommit env xid then (Returns (True, ctid, in_place), [])
           else (Returns (False, ctid, in_place), [])))"

text \<open>
  For the termination of the walkers. A walk is at an undo pointer with a tuple in
  hand. From a record fetched there it goes on in one of two ways. It keeps the tuple
  and goes to the record's \<open>uur_blkprev\<close>: past a record of slot reuse at the label
  \<^verbatim>\<open>fetch_undo_record\<close>, and from record to record in the do-while loop. Or, when the
  record is not one of slot reuse, it builds the undo tuple and goes on with it at
  \<open>prev_urec_ptr\<close>, which lines 108-110 and 331-333 set to the undo pointer of the undo
  tuple's slot only if that slot is not the frozen one and is not the slot of the tuple
  in hand. The undo of a page is ranked when natural numbers can be given to the pairs
  of a pointer and a tuple so that both ways lead downwards: the undo chains are
  finite and without a cycle.
\<close>

definition undo_ranked ::
  "zheap_env \<Rightarrow> Buffer \<Rightarrow> (UndoRecPtr \<Rightarrow> ZHeapTupleData \<Rightarrow> nat) \<Rightarrow> bool"
where
  "undo_ranked env buffer rank =
    (\<forall>p blk off x urec zhtup.
       UndoFetchRecord env p blk off x = Some urec \<longrightarrow>
         rank (uur_blkprev urec) zhtup < rank p zhtup
         \<and> (uur_type urec \<noteq> UNDO_INVALID_XACT_SLOT env \<longrightarrow>
              (\<forall>free_zhtup.
                 rank (prev_urec_ptr_of env zhtup urec
                         (CopyTupleFromUndoRecord env urec zhtup free_zhtup) buffer)
                      (CopyTupleFromUndoRecord env urec zhtup free_zhtup)
                   < rank p zhtup)))"

text \<open>
  The two numbers of the chain that starts at a pointer with a tuple in hand: its
  records of slot reuse (\<open>slot_invalidations\<close>) and its other records
  (\<open>chain_length\<close>). Going on from a record of slot reuse uses up one of the first
  number, going on from any other record one of the second, and neither number grows.
  Undo that can be counted in this way is ranked by the sum of the two numbers; undo
  that is ranked can be counted, at worst by taking the rank for both numbers.
\<close>

definition undo_counted ::
  "zheap_env \<Rightarrow> Buffer \<Rightarrow> (UndoRecPtr \<Rightarrow> ZHeapTupleData \<Rightarrow> nat) \<Rightarrow>
   (UndoRecPtr \<Rightarrow> ZHeapTupleData \<Rightarrow> nat) \<Rightarrow> bool"
where
  "undo_counted env buffer chain_length slot_invalidations =
    (\<forall>p blk off x urec zhtup.
       UndoFetchRecord env p blk off x = Some urec \<longrightarrow>
         (if uur_type urec = UNDO_INVALID_XACT_SLOT env
          then chain_length (uur_blkprev urec) zhtup \<le> chain_length p zhtup
               \<and> slot_invalidations (uur_blkprev urec) zhtup < slot_invalidations p zhtup
          else chain_length (uur_blkprev urec) zhtup < chain_length p zhtup
               \<and> slot_invalidations (uur_blkprev urec) zhtup \<le> slot_invalidations p zhtup
               \<and> (\<forall>free_zhtup.
                     chain_length
                       (prev_urec_ptr_of env zhtup urec
                          (CopyTupleFromUndoRecord env urec zhtup free_zhtup) buffer)
                       (CopyTupleFromUndoRecord env urec zhtup free_zhtup)
                       < chain_length p zhtup
                     \<and> slot_invalidations
                         (prev_urec_ptr_of env zhtup urec
                            (CopyTupleFromUndoRecord env urec zhtup free_zhtup) buffer)
                         (CopyTupleFromUndoRecord env urec zhtup free_zhtup)
                         \<le> slot_invalidations p zhtup)))"

section \<open>A page, an undo log and a transaction manager to run the code on\<close>

text \<open>
  The horizon is 100. Transaction 200 is the current one, 150 is in progress in another
  backend and in flight for every snapshot, 90 and 120 aborted, every other xid from 3 on
  committed. The slot of a tuple is its \<open>t_infomask2\<close>; slot 0 is the frozen one. The
  undo reader looks the pointer up in the log and ignores its other arguments;
  \<open>CopyTupleFromUndoRecord\<close> puts the record's tuple image in place of the header.
\<close>

definition ex_slots :: ZHeapPageOpaque where
  "ex_slots =
    [(0, 0), (200, 10), (150, 20), (90, 30), (120, 40), (80, 50), (150, 60), (150, 23)]"

definition ex_rec ::
  "8 word \<Rightarrow> TransactionId \<Rightarrow> CommandId \<Rightarrow> UndoRecPtr \<Rightarrow> 16 word \<Rightarrow> 16 word \<Rightarrow> UnpackedUndoRecord"
where
  "ex_rec ty prevxid cid blkprev slot infomask =
    \<lparr>uur_type = ty, uur_prevxid = prevxid, uur_cid = cid, uur_blkprev = blkprev,
     uur_payload = \<lparr>ip_blkid = 5, ip_posid = 9\<rparr>,
     uur_tuple = \<lparr>t_infomask2 = slot, t_infomask = infomask\<rparr>\<rparr>"

definition ex_undo_log :: "(UndoRecPtr \<times> UnpackedUndoRecord) list" where
  "ex_undo_log =
    [(10, ex_rec 3 60 1 0 5 0),
     (20, ex_rec 6 150 2 21 0 0),
     (21, ex_rec 3 150 2 22 2 0x1020),
     (22, ex_rec 3 40 1 23 2 0),
     (23, ex_rec 6 70 4 24 0 0),
     (60, ex_rec 3 150 2 61 1 0x20),
     (61, ex_rec 3 60 1 0 1 0)]"

definition ex_env :: zheap_env where
  "ex_env =
    \<lparr>USE_ASSERT_CHECKING = False,
     InvalidTransactionId = 0,
     InvalidCommandId = - 1,
     InvalidUndoRecPtr = 0,
     InvalidOid = 0,
     ZHTUP_SLOT_FROZEN = 0,
     UNDO_INVALID_XACT_SLOT = 6,
     UNDO_UPDATE = 4,
     ZHEAP_DELETED = 0x10,
     ZHEAP_UPDATED = 0x40,
     ZHEAP_INPLACE_UPDATED = 0x20,
     ZHEAP_XID_LOCK_ONLY = 0x80,
     ZHEAP_INVALID_XACT_SLOT = 0x1000,
     ZHEAP_XID_IS_LOCKED_ONLY = (\<lambda>infomask. infomask AND 0x80 \<noteq> 0),
     RecentGlobalXmin = 100,
     ItemPointerIsValid = (\<lambda>p. ip_posid p \<noteq> 0),
     UndoFetchRecord = (\<lambda>urec_ptr blk off prev_xid. map_of ex_undo_log urec_ptr),
     CopyTupleFromUndoRecord = (\<lambda>urec zhtup free_zhtup. zhtup\<lparr>t_data := uur_tuple urec\<rparr>),
     PageGetSpecialPointer = (\<lambda>buffer. ex_slots),
     ZHeapTupleHeaderGetXactSlot = (\<lambda>tuple. uint (t_infomask2 tuple)),
     ZHeapTupleHeaderGetRawXid = (\<lambda>tuple opaque. fst (opaque ! unat (t_infomask2 tuple))),
     ZHeapTupleHeaderGetRawUndoPtr = (\<lambda>tuple opaque. snd (opaque ! unat (t_infomask2 tuple))),
     ZHeapTupleGetCid = (\<lambda>zhtup buffer. 3),
     ZHeapTupleGetCtid = (\<lambda>zhtup buffer. \<lparr>ip_blkid = 5, ip_posid = 9\<rparr>),
     TransactionIdPrecedes = (\<lambda>id1 id2. id1 < id2),
     TransactionIdIsCurrentTransactionId = (\<lambda>xid. xid = 200),
     TransactionIdIsInProgress = (\<lambda>xid. xid = 200 \<or> xid = 150),
     TransactionIdDidCommit =
       (\<lambda>xid. 3 \<le> xid \<and> xid \<noteq> 200 \<and> xid \<noteq> 150 \<and> xid \<noteq> 90 \<and> xid \<noteq> 120),
     XidInMVCCSnapshot = (\<lambda>xid snapshot. xid = 150)\<rparr>"

definition ex_tuple :: "16 word \<Rightarrow> 16 word \<Rightarrow> ZHeapTupleData" where
  "ex_tuple slot infomask =
    \<lparr>t_self = \<lparr>ip_blkid = 7, ip_posid = 1\<rparr>, t_tableOid = 16384,
     t_data = \<lparr>t_infomask2 = slot, t_infomask = infomask\<rparr>\<rparr>"

definition ex_snapshot :: SnapshotData where
  "ex_snapshot = \<lparr>curcid = 5, xmin = 120, xmax = 201, speculativeToken = 77\<rparr>"

text \<open>
  A second page and undo log, for a tuple whose slot has been used again. Transaction
  110 inserted the tuple under slot 1; transaction 150 updated it in place under slot
  2 (the record at 30 holds the inserted tuple); slot 2 was then taken from 150, which
  left the record of slot reuse at 31, and given to transaction 170, which updated the
  tuple in place (the record at 33 holds the tuple as 150 left it, marked
  \<open>ZHEAP_INVALID_XACT_SLOT\<close>). The record at 32 is the record of slot reuse of another
  transaction. Transactions 150 and 170 are in progress and in flight for every
  snapshot. The chain from 33 has two records of slot reuse and two other records. At
  33 the chain is longer by one for a tuple that is not of slot 2, since the walk then
  fetches next at the undo pointer of slot 2, which is 33 again.
\<close>

definition sr_slots :: ZHeapPageOpaque where
  "sr_slots = [(0, 0), (110, 10), (170, 33)]"

definition sr_log :: "(UndoRecPtr \<times> UnpackedUndoRecord) list" where
  "sr_log =
    [(33, ex_rec 3 150 2 32 2 0x1020),
     (32, ex_rec 6 130 1 31 0 0),
     (31, ex_rec 6 150 2 30 0 0),
     (30, ex_rec 3 110 1 0 1 0)]"

definition sr_env :: zheap_env where
  "sr_env = ex_env\<lparr>UndoFetchRecord := (\<lambda>urec_ptr blk off prev_xid. map_of sr_log urec_ptr),
                  PageGetSpecialPointer := (\<lambda>buffer. sr_slots),
                  TransactionIdIsInProgress := (\<lambda>xid. xid = 200 \<or> xid = 150 \<or> xid = 170),
                  TransactionIdDidCommit :=
                    (\<lambda>xid. 3 \<le> xid \<and> xid \<noteq> 200 \<and> xid \<noteq> 150 \<and> xid \<noteq> 170),
                  XidInMVCCSnapshot := (\<lambda>xid snapshot. xid = 150 \<or> xid = 170)\<rparr>"



section \<open>Running the code\<close>

lemmas ex_defs = ex_env_def ex_tuple_def ex_snapshot_def ex_slots_def ex_undo_log_def ex_rec_def

lemma fuel5: "(5::nat) = Suc (Suc (Suc (Suc (Suc 0))))"
  by simp

lemmas sr_defs = sr_env_def sr_log_def sr_slots_def ex_env_def ex_tuple_def ex_snapshot_def
  ex_rec_def

lemma GetTupleFromUndo_4:
  "GetTupleFromUndo 4 = GetTupleFromUndo (Suc (Suc (Suc (Suc 0))))"
  by (rule arg_cong [where f = GetTupleFromUndo]) simp

lemma UndoTupleSatisfiesUpdate_4:
  "UndoTupleSatisfiesUpdate 4 = UndoTupleSatisfiesUpdate (Suc (Suc (Suc (Suc 0))))"
  by (rule arg_cong [where f = UndoTupleSatisfiesUpdate]) simp

lemmas test_defs = entry_asserts_def assert_passes_def deleted_or_updated_def
  inplace_updated_or_locked_def all_visible_def infomask_has_def xid_cid_info_def xid_info_def
  after_fetches_def xact_outcome_of_def dirty_entry_def

lemmas walk_defs = after_fetches_def undo_tup_identity_def undo_oper_of_def
  undo_tup_assert_def assert_passes_def infomask_has_def Let_def

section \<open>Frozen tuples\<close>

text \<open>
  Claim C1, as amended. For a tuple whose slot is the frozen one (and that passes the two
  assertions at the head of the predicates): when its infomask has neither \<open>DELETED\<close>
  nor \<open>UPDATED\<close>, \<open>ZHeapTupleSatisfiesMVCC\<close> and \<open>ZHeapTupleSatisfiesDirty\<close> return the
  tuple, whatever the snapshot, and fetch no undo record; when it has \<open>DELETED\<close> or
  \<open>UPDATED\<close>, \<open>ZHeapTupleSatisfiesMVCC\<close> returns \<^verbatim>\<open>NULL\<close>;
  \<open>ZHeapTupleSatisfiesAny\<close> returns every tuple.
\<close>

theorem frozen_visible:
  assumes "ZHeapTupleHeaderGetXactSlot env (t_data zhtup) = ZHTUP_SLOT_FROZEN env"
      and "entry_asserts env zhtup"
  shows "(\<not> deleted_or_updated env (t_data zhtup) \<longrightarrow>
            ZHeapTupleSatisfiesMVCC fuel env zhtup snapshot buffer ctid
              = (Returns (Some zhtup), [])
          \<and> ZHeapTupleSatisfiesDirty fuel env zhtup snapshot buffer ctid
              = (Returns (Some zhtup, dirty_entry env snapshot, ctid), []))
       \<and> (deleted_or_updated env (t_data zhtup) \<longrightarrow>
            ZHeapTupleSatisfiesMVCC fuel env zhtup snapshot buffer ctid = (Returns None, []))
       \<and> ZHeapTupleSatisfiesAny zhtup snapshot buffer ctid = Some zhtup"
  using assms
  by (simp add: ZHeapTupleSatisfiesMVCC_def ZHeapTupleSatisfiesDirty_def
        ZHeapTupleSatisfiesAny_def xid_cid_info_def xid_info_def all_visible_def
        after_fetches_def dirty_entry_def Let_def)

theorem frozen_visible_witness:
  "ZHeapTupleHeaderGetXactSlot ex_env (t_data (ex_tuple 0 0x20)) = ZHTUP_SLOT_FROZEN ex_env
   \<and> entry_asserts ex_env (ex_tuple 0 0x20)
   \<and> \<not> deleted_or_updated ex_env (t_data (ex_tuple 0 0x20))
   \<and> ZHeapTupleSatisfiesMVCC 5 ex_env (ex_tuple 0 0x20) ex_snapshot 1 None
       = (Returns (Some (ex_tuple 0 0x20)), [])
   \<and> ZHeapTupleSatisfiesDirty 5 ex_env (ex_tuple 0 0x20) ex_snapshot 1 None
       = (Returns (Some (ex_tuple 0 0x20), dirty_entry ex_env ex_snapshot, None), [])
   \<and> ZHeapTupleHeaderGetXactSlot ex_env (t_data (ex_tuple 0 0x50)) = ZHTUP_SLOT_FROZEN ex_env
   \<and> entry_asserts ex_env (ex_tuple 0 0x50)
   \<and> deleted_or_updated ex_env (t_data (ex_tuple 0 0x50))
   \<and> ZHeapTupleSatisfiesMVCC 5 ex_env (ex_tuple 0 0x50) ex_snapshot 1 None = (Returns None, [])"
  using frozen_visible [of ex_env "ex_tuple 0 0x20" 5 ex_snapshot 1 None]
    frozen_visible [of ex_env "ex_tuple 0 0x50" 5 ex_snapshot 1 None]
  by (simp add: ex_env_def ex_tuple_def entry_asserts_def assert_passes_def
        deleted_or_updated_def infomask_has_def)

text \<open>
  The claim as stated fails: a frozen tuple with \<open>ZHEAP_DELETED\<close> set is not returned by
  \<open>ZHeapTupleSatisfiesMVCC\<close>.
\<close>

theorem frozen_deleted_counterexample:
  "ZHeapTupleHeaderGetXactSlot ex_env (t_data (ex_tuple 0 0x10)) = ZHTUP_SLOT_FROZEN ex_env
   \<and> infomask_has (t_data (ex_tuple 0 0x10)) (ZHEAP_DELETED ex_env)
   \<and> ZHeapTupleSatisfiesMVCC 5 ex_env (ex_tuple 0 0x10) ex_snapshot 1 None = (Returns None, [])"
  by (simp add: ZHeapTupleSatisfiesMVCC_def ex_env_def ex_tuple_def test_defs)

section \<open>The two blocks that find the xid agree\<close>

lemma xid_loop_of_xid_cid_loop:
  "xid_loop n env zhtup p =
    (case xid_cid_loop n env zhtup p of
       (Returns (xid, cid, q), fetched) \<Rightarrow> (Returns (xid, q), fetched)
     | (Fails f, fetched) \<Rightarrow> (Fails f, fetched)
     | (Unfinished, fetched) \<Rightarrow> (Unfinished, fetched))"
proof (induction n arbitrary: p)
  case 0
  then show ?case by simp
next
  case (Suc n)
  show ?case
    by (simp add: Suc.IH after_fetches_def split: option.split prod.split outcome.split)
qed

lemma xid_info_of_xid_cid_info:
  "xid_info fuel env zhtup buffer =
    (case xid_cid_info fuel env zhtup buffer cid_init of
       (Returns (xid, cid, q), fetched) \<Rightarrow> (Returns xid, fetched)
     | (Fails f, fetched) \<Rightarrow> (Fails f, fetched)
     | (Unfinished, fetched) \<Rightarrow> (Unfinished, fetched))"
  by (simp add: xid_info_def xid_cid_info_def Let_def xid_loop_of_xid_cid_loop
        split: prod.split outcome.split)

section \<open>Surely dead tuples\<close>

text \<open>
  Claim C5. If \<open>ZHeapTupleIsSurelyDead\<close> returns true for a tuple, then
  \<open>ZHeapTupleSatisfiesMVCC\<close> returns \<^verbatim>\<open>NULL\<close> for it under every snapshot (after the
  same fetches). And \<open>ZHeapTupleIsSurelyDead\<close> returns true exactly when the infomask
  has \<open>DELETED\<close> or \<open>UPDATED\<close> set and the all-visible shortcut fires for the xid the
  function found: the slot is frozen or the xid precedes \<open>RecentGlobalXmin\<close>.
\<close>

theorem surely_dead_sound:
  "(ZHeapTupleIsSurelyDead fuel env zhtup OldestXmin buffer = (Returns True, fetched) \<longrightarrow>
      ZHeapTupleSatisfiesMVCC fuel env zhtup snapshot buffer ctid = (Returns None, fetched))
   \<and> (entry_asserts env zhtup \<and> xid_info fuel env zhtup buffer = (Returns xid, fetched) \<longrightarrow>
      ZHeapTupleIsSurelyDead fuel env zhtup OldestXmin buffer
        = (Returns (deleted_or_updated env (t_data zhtup) \<and> all_visible env (t_data zhtup) xid),
           fetched))"
proof (rule conjI; rule impI)
  assume dead: "ZHeapTupleIsSurelyDead fuel env zhtup OldestXmin buffer = (Returns True, fetched)"
  then have ok: "entry_asserts env zhtup"
    by (auto simp: ZHeapTupleIsSurelyDead_def Let_def split: if_splits)
  from dead ok obtain xid' where
    x: "xid_info fuel env zhtup buffer = (Returns xid', fetched)"
    and du: "deleted_or_updated env (t_data zhtup)"
    and av: "all_visible env (t_data zhtup) xid'"
    by (auto simp: ZHeapTupleIsSurelyDead_def Let_def split: if_splits prod.splits outcome.splits)
  from x obtain cid q where
    "xid_cid_info fuel env zhtup buffer (InvalidCommandId env) = (Returns (xid', cid, q), fetched)"
    using xid_info_of_xid_cid_info [of fuel env zhtup buffer "InvalidCommandId env"]
    by (auto split: prod.splits outcome.splits)
  with ok du av
  show "ZHeapTupleSatisfiesMVCC fuel env zhtup snapshot buffer ctid = (Returns None, fetched)"
    by (simp add: ZHeapTupleSatisfiesMVCC_def after_fetches_def)
next
  assume "entry_asserts env zhtup \<and> xid_info fuel env zhtup buffer = (Returns xid, fetched)"
  then show "ZHeapTupleIsSurelyDead fuel env zhtup OldestXmin buffer
        = (Returns (deleted_or_updated env (t_data zhtup) \<and> all_visible env (t_data zhtup) xid),
           fetched)"
    by (simp add: ZHeapTupleIsSurelyDead_def Let_def)
qed

text \<open>
  A deleted tuple whose slot was reused: the record of slot reuse at pointer 23 gives
  xid 70, which precedes the horizon.
\<close>

lemma ex_xid_info_7: "xid_info 5 ex_env (ex_tuple 7 0x1010) 1 = (Returns 70, [23])"
  by (simp add: ex_defs test_defs fuel5)

lemma ex_surely_dead_7:
  "ZHeapTupleIsSurelyDead 5 ex_env (ex_tuple 7 0x1010) 0 1 = (Returns True, [23])"
  by (simp add: ZHeapTupleIsSurelyDead_def ex_defs test_defs fuel5)

theorem surely_dead_sound_witness:
  "ZHeapTupleIsSurelyDead 5 ex_env (ex_tuple 7 0x1010) 0 1 = (Returns True, [23])
   \<and> ZHeapTupleSatisfiesMVCC 5 ex_env (ex_tuple 7 0x1010) ex_snapshot 1 None
       = (Returns None, [23])
   \<and> entry_asserts ex_env (ex_tuple 7 0x1010)
   \<and> xid_info 5 ex_env (ex_tuple 7 0x1010) 1 = (Returns 70, [23])
   \<and> deleted_or_updated ex_env (t_data (ex_tuple 7 0x1010))
   \<and> all_visible ex_env (t_data (ex_tuple 7 0x1010)) 70"
  using surely_dead_sound [of 5 ex_env "ex_tuple 7 0x1010" 0 1 "[23]" ex_snapshot None 70]
    ex_xid_info_7 ex_surely_dead_7
  by (simp add: ex_env_def ex_tuple_def entry_asserts_def assert_passes_def
        deleted_or_updated_def all_visible_def infomask_has_def)

section \<open>Changes of the current transaction\<close>

text \<open>
  Claim C6, as amended. For a tuple whose last change was made by the current
  transaction with a cid below the snapshot's \<open>curcid\<close>: when that change is an
  in-place update, a lock or the insert (neither \<open>DELETED\<close> nor \<open>UPDATED\<close> is set),
  \<open>ZHeapTupleSatisfiesMVCC\<close> and \<open>ZHeapTupleSatisfiesDirty\<close> return the tuple; when
  it is a delete or a non-in-place update, \<open>ZHeapTupleSatisfiesMVCC\<close> returns
  \<^verbatim>\<open>NULL\<close>, and so does \<open>ZHeapTupleSatisfiesDirty\<close> where its assertion on the slot
  and the horizon passes.
\<close>

theorem self_before_curcid:
  assumes "entry_asserts env zhtup"
      and "xid_cid_info fuel env zhtup buffer (InvalidCommandId env)
             = (Returns (xid, cid, urec_ptr), fetched)"
      and "TransactionIdIsCurrentTransactionId env xid"
      and "cid < curcid snapshot"
  shows "(\<not> deleted_or_updated env (t_data zhtup) \<longrightarrow>
            ZHeapTupleSatisfiesMVCC fuel env zhtup snapshot buffer ctid
              = (Returns (Some zhtup), fetched)
          \<and> ZHeapTupleSatisfiesDirty fuel env zhtup snapshot buffer ctid
              = (Returns (Some zhtup, dirty_entry env snapshot, ctid), fetched))
       \<and> (deleted_or_updated env (t_data zhtup) \<longrightarrow>
            ZHeapTupleSatisfiesMVCC fuel env zhtup snapshot buffer ctid = (Returns None, fetched)
          \<and> (assert_passes env
                (\<not> (ZHeapTupleHeaderGetXactSlot env (t_data zhtup) = ZHTUP_SLOT_FROZEN env
                    \<and> TransactionIdPrecedes env xid (RecentGlobalXmin env))) \<longrightarrow>
              (\<exists>ctid'. ZHeapTupleSatisfiesDirty fuel env zhtup snapshot buffer ctid
                 = (Returns (None, dirty_entry env snapshot, ctid'), fetched))))"
proof -
  have x: "xid_info fuel env zhtup buffer = (Returns xid, fetched)"
    using xid_info_of_xid_cid_info [of fuel env zhtup buffer "InvalidCommandId env"] assms(2)
    by simp
  have c: "\<not> curcid snapshot \<le> cid" using assms(4) by simp
  show ?thesis
    using assms(1,2,3) x c
    by (simp add: ZHeapTupleSatisfiesMVCC_def ZHeapTupleSatisfiesDirty_def after_fetches_def
          dirty_entry_def Let_def)
qed

text \<open>
  Slot 1 belongs to the current transaction 200, whose cid 3 is below the snapshot's 5:
  an in-place updated tuple and a deleted one.
\<close>

theorem self_before_curcid_witness:
  "entry_asserts ex_env (ex_tuple 1 0x20)
   \<and> xid_cid_info 5 ex_env (ex_tuple 1 0x20) 1 (InvalidCommandId ex_env)
       = (Returns (200, 3, 10), [])
   \<and> TransactionIdIsCurrentTransactionId ex_env 200
   \<and> 3 < curcid ex_snapshot
   \<and> \<not> deleted_or_updated ex_env (t_data (ex_tuple 1 0x20))
   \<and> ZHeapTupleSatisfiesMVCC 5 ex_env (ex_tuple 1 0x20) ex_snapshot 1 None
       = (Returns (Some (ex_tuple 1 0x20)), [])
   \<and> ZHeapTupleSatisfiesDirty 5 ex_env (ex_tuple 1 0x20) ex_snapshot 1 None
       = (Returns (Some (ex_tuple 1 0x20), dirty_entry ex_env ex_snapshot, None), [])
   \<and> deleted_or_updated ex_env (t_data (ex_tuple 1 0x40))
   \<and> ZHeapTupleSatisfiesMVCC 5 ex_env (ex_tuple 1 0x40) ex_snapshot 1 None
       = (Returns None, [])"
  using self_before_curcid [of ex_env "ex_tuple 1 0x20" 5 1 200 3 10 "[]" ex_snapshot None]
    self_before_curcid [of ex_env "ex_tuple 1 0x40" 5 1 200 3 10 "[]" ex_snapshot None]
  by (simp add: ex_defs test_defs)

text \<open>
  The claim as stated fails in the class of deletes: the current transaction deleted the
  tuple at cid 3, before the snapshot's command 5, and neither predicate returns it.
\<close>

theorem self_delete_counterexample:
  "xid_cid_info 5 ex_env (ex_tuple 1 0x10) 1 (InvalidCommandId ex_env)
       = (Returns (200, 3, 10), [])
   \<and> TransactionIdIsCurrentTransactionId ex_env 200
   \<and> 3 < curcid ex_snapshot
   \<and> infomask_has (t_data (ex_tuple 1 0x10)) (ZHEAP_DELETED ex_env)
   \<and> ZHeapTupleSatisfiesMVCC 5 ex_env (ex_tuple 1 0x10) ex_snapshot 1 None
       = (Returns None, [])
   \<and> ZHeapTupleSatisfiesDirty 5 ex_env (ex_tuple 1 0x10) ex_snapshot 1 None
       = (Returns (None, dirty_entry ex_env ex_snapshot, None), [])"
  by (simp add: ZHeapTupleSatisfiesMVCC_def ZHeapTupleSatisfiesDirty_def ex_defs test_defs)

section \<open>Tuples deleted or moved by a committed transaction\<close>

text \<open>
  Claim C7. \<open>ZHeapTupleSatisfiesUpdate\<close> on a tuple with \<open>DELETED\<close> or \<open>UPDATED\<close>
  set, whose xid is that of a committed transaction (not the current one, not in
  progress), returns \<open>HeapTupleUpdated\<close>; when \<open>UPDATED\<close> is set and \<^verbatim>\<open>ctid\<close> is not
  null, \<^verbatim>\<open>*ctid\<close> holds what \<open>ZHeapTupleGetCtid\<close> gives for the tuple, and is left
  alone otherwise. No undo record is fetched beyond those that gave the xid. With
  assertions compiled in, the assertion of that branch has to pass.
\<close>

theorem committed_delete_is_updated:
  assumes "entry_asserts env zhtup"
      and "xid_cid_info fuel env zhtup buffer cid_init = (Returns (xid, cid, urec_ptr), fetched)"
      and "deleted_or_updated env (t_data zhtup)"
      and "assert_passes env
             (\<not> (ZHeapTupleHeaderGetXactSlot env (t_data zhtup) = ZHTUP_SLOT_FROZEN env
                 \<and> TransactionIdPrecedes env xid (RecentGlobalXmin env)))"
      and "xact_outcome_of env xid = Committed"
  shows "ZHeapTupleSatisfiesUpdate fuel env zhtup curcid' buffer ctid cid_init free_zhtup
           lock_allowed snapshot
         = (Returns (HeapTupleUpdated, xid, cid,
              (if infomask_has (t_data zhtup) (ZHEAP_UPDATED env) \<and> ctid \<noteq> None
               then Some (ZHeapTupleGetCtid env zhtup buffer) else ctid), False), fetched)"
proof -
  from assms(5) have
    "\<not> TransactionIdIsCurrentTransactionId env xid"
    "\<not> TransactionIdIsInProgress env xid"
    "TransactionIdDidCommit env xid"
    by (auto simp: xact_outcome_of_def split: if_splits)
  with assms(1-4) show ?thesis
    by (simp add: ZHeapTupleSatisfiesUpdate_def after_fetches_def Let_def)
qed

text \<open>
  Scenario 6 of the specification: slot 5 belongs to the committed transaction 80, the
  tuple is \<open>UPDATED\<close>, and the moved-to pointer is (5, 9).
\<close>

theorem committed_delete_is_updated_witness:
  "entry_asserts ex_env (ex_tuple 5 0x40)
   \<and> xid_cid_info 5 ex_env (ex_tuple 5 0x40) 1 0 = (Returns (80, 3, 50), [])
   \<and> deleted_or_updated ex_env (t_data (ex_tuple 5 0x40))
   \<and> xact_outcome_of ex_env 80 = Committed
   \<and> ZHeapTupleSatisfiesUpdate 5 ex_env (ex_tuple 5 0x40) 5 1
        (Some \<lparr>ip_blkid = 0, ip_posid = 0\<rparr>) 0 False False ex_snapshot
       = (Returns (HeapTupleUpdated, 80, 3, Some \<lparr>ip_blkid = 5, ip_posid = 9\<rparr>, False), [])"
  using committed_delete_is_updated [of ex_env "ex_tuple 5 0x40" 5 1 0 80 3 50 "[]" 5
      "Some \<lparr>ip_blkid = 0, ip_posid = 0\<rparr>" False False ex_snapshot]
  by (simp add: ex_defs test_defs)

section \<open>What the dirty snapshot receives\<close>

text \<open>
  Claim C9. Whenever \<open>ZHeapTupleSatisfiesDirty\<close> returns, the snapshot it leaves is the
  one set on entry (\<open>xmin\<close> and \<open>xmax\<close> invalid, \<open>speculativeToken\<close> 0, everything
  else as the caller gave it), but for one write, made only when the xid of the tuple is
  that of a transaction in progress (and not the current one): \<open>xmax\<close> is that xid
  when the tuple is deleted or non-in-place updated, or in-place updated and not
  locked only; \<open>xmin\<close> is that xid when the tuple is an insert. In the last two classes
  the all-visible shortcut comes first and leaves the entry values.
\<close>

theorem dirty_snapshot_writes:
  assumes "ZHeapTupleSatisfiesDirty fuel env zhtup snapshot buffer ctid
             = (Returns (result, snapshot', ctid'), fetched)"
  shows "\<exists>xid. xid_info fuel env zhtup buffer = (Returns xid, fetched)
       \<and> snapshot' =
          (if xact_outcome_of env xid \<noteq> InProgress then dirty_entry env snapshot
           else if deleted_or_updated env (t_data zhtup)
           then (dirty_entry env snapshot)\<lparr>xmax := xid\<rparr>
           else if all_visible env (t_data zhtup) xid then dirty_entry env snapshot
           else if inplace_updated_or_locked env (t_data zhtup)
           then (if \<not> ZHEAP_XID_IS_LOCKED_ONLY env (t_infomask (t_data zhtup))
                 then (dirty_entry env snapshot)\<lparr>xmax := xid\<rparr>
                 else dirty_entry env snapshot)
           else (dirty_entry env snapshot)\<lparr>xmin := xid\<rparr>)"
  using assms
  by (auto simp: ZHeapTupleSatisfiesDirty_def dirty_entry_def xact_outcome_of_def Let_def
        split: if_splits prod.splits outcome.splits)

text \<open>
  Slot 6 belongs to transaction 150, in progress in another backend: an in-place
  updated tuple leaves \<open>xmax = 150\<close>.
\<close>

theorem dirty_snapshot_writes_witness:
  "ZHeapTupleSatisfiesDirty 5 ex_env (ex_tuple 6 0x20) ex_snapshot 1 None
     = (Returns (Some (ex_tuple 6 0x20),
          \<lparr>curcid = 5, xmin = 0, xmax = 150, speculativeToken = 0\<rparr>, None), [])
   \<and> xid_info 5 ex_env (ex_tuple 6 0x20) 1 = (Returns 150, [])
   \<and> xact_outcome_of ex_env 150 = InProgress
   \<and> (dirty_entry ex_env ex_snapshot)\<lparr>xmax := 150\<rparr>
       = \<lparr>curcid = 5, xmin = 0, xmax = 150, speculativeToken = 0\<rparr>"
  using dirty_snapshot_writes [of 5 ex_env "ex_tuple 6 0x20" ex_snapshot 1 None
      "Some (ex_tuple 6 0x20)" "\<lparr>curcid = 5, xmin = 0, xmax = 150, speculativeToken = 0\<rparr>"
      None "[]"]
  by (simp add: ZHeapTupleSatisfiesDirty_def ex_defs test_defs)

section \<open>The dirty snapshot and aborted transactions\<close>

text \<open>
  Claim C10, as amended. With assertions compiled out, for a tuple whose xid is that of
  an aborted transaction (not current, not in progress, not committed),
  \<open>ZHeapTupleSatisfiesDirty\<close> returns \<^verbatim>\<open>NULL\<close> when the tuple is deleted or
  non-in-place updated, and in the two other classes when the all-visible shortcut does
  not fire; when it fires there (frozen slot, or xid preceding \<open>RecentGlobalXmin\<close>) the
  tuple is returned. Either way no undo record is fetched beyond those that gave the
  xid, and the snapshot is as set on entry.
\<close>

theorem dirty_aborted:
  assumes "USE_ASSERT_CHECKING env = False"
      and "xid_info fuel env zhtup buffer = (Returns xid, fetched)"
      and "xact_outcome_of env xid = Aborted"
  shows "ZHeapTupleSatisfiesDirty fuel env zhtup snapshot buffer ctid =
           (if deleted_or_updated env (t_data zhtup) \<or> \<not> all_visible env (t_data zhtup) xid
            then (Returns (None, dirty_entry env snapshot, ctid), fetched)
            else (Returns (Some zhtup, dirty_entry env snapshot, ctid), fetched))"
proof -
  from assms(3) have
    "\<not> TransactionIdIsCurrentTransactionId env xid"
    "\<not> TransactionIdIsInProgress env xid"
    "\<not> TransactionIdDidCommit env xid"
    by (auto simp: xact_outcome_of_def split: if_splits)
  with assms(1,2) show ?thesis
    by (simp add: ZHeapTupleSatisfiesDirty_def dirty_entry_def Let_def entry_asserts_def
          assert_passes_def)
qed

text \<open>
  Slot 4 belongs to the aborted transaction 120, above the horizon: a deleted tuple, an
  in-place updated one and an inserted one.
\<close>

theorem dirty_aborted_witness:
  "USE_ASSERT_CHECKING ex_env = False
   \<and> xid_info 5 ex_env (ex_tuple 4 0x10) 1 = (Returns 120, [])
   \<and> xid_info 5 ex_env (ex_tuple 4 0x20) 1 = (Returns 120, [])
   \<and> xid_info 5 ex_env (ex_tuple 4 0) 1 = (Returns 120, [])
   \<and> xact_outcome_of ex_env 120 = Aborted
   \<and> ZHeapTupleSatisfiesDirty 5 ex_env (ex_tuple 4 0x10) ex_snapshot 1 None
       = (Returns (None, dirty_entry ex_env ex_snapshot, None), [])
   \<and> ZHeapTupleSatisfiesDirty 5 ex_env (ex_tuple 4 0x20) ex_snapshot 1 None
       = (Returns (None, dirty_entry ex_env ex_snapshot, None), [])
   \<and> ZHeapTupleSatisfiesDirty 5 ex_env (ex_tuple 4 0) ex_snapshot 1 None
       = (Returns (None, dirty_entry ex_env ex_snapshot, None), [])"
  using dirty_aborted [of ex_env 5 "ex_tuple 4 0x10" 1 120 "[]" ex_snapshot None]
    dirty_aborted [of ex_env 5 "ex_tuple 4 0x20" 1 120 "[]" ex_snapshot None]
    dirty_aborted [of ex_env 5 "ex_tuple 4 0" 1 120 "[]" ex_snapshot None]
  by (simp add: ex_defs test_defs)

text \<open>
  The claim as stated fails where the all-visible shortcut fires: slot 3 belongs to the
  aborted transaction 90, which precedes the horizon 100, and the in-place updated
  tuple is returned.
\<close>

theorem dirty_aborted_counterexample:
  "USE_ASSERT_CHECKING ex_env = False
   \<and> xid_info 5 ex_env (ex_tuple 3 0x20) 1 = (Returns 90, [])
   \<and> \<not> TransactionIdIsCurrentTransactionId ex_env 90
   \<and> \<not> TransactionIdIsInProgress ex_env 90
   \<and> \<not> TransactionIdDidCommit ex_env 90
   \<and> infomask_has (t_data (ex_tuple 3 0x20)) (ZHEAP_INPLACE_UPDATED ex_env)
   \<and> ZHeapTupleSatisfiesDirty 5 ex_env (ex_tuple 3 0x20) ex_snapshot 1 None
       = (Returns (Some (ex_tuple 3 0x20), dirty_entry ex_env ex_snapshot, None), [])"
  by (simp add: ZHeapTupleSatisfiesDirty_def ex_defs test_defs)

section \<open>A discarded first record\<close>

text \<open>
  Claim C3 does not hold of the code. Both walkers read \<^verbatim>\<open>urec->uur_type\<close> right
  after the first \<^verbatim>\<open>UndoFetchRecord\<close>; when that fetch returns no record, the walk
  ends in a read through a null pointer, not in an answer.
\<close>

theorem discarded_first_record:
  assumes "UndoFetchRecord env urec_ptr (ip_blkid (t_self zhtup)) (ip_posid (t_self zhtup))
             prev_undo_xid = None"
  shows "GetTupleFromUndo (Suc n) env urec_ptr zhtup snapshot buffer prev_undo_xid
           = (Fails NullPointerDereference, [urec_ptr])
       \<and> UndoTupleSatisfiesUpdate (Suc n) env urec_ptr zhtup curcid' buffer ctid prev_undo_xid
           free_zhtup in_place = (Fails NullPointerDereference, [urec_ptr])"
  using assms by simp

text \<open>
  Slot 4 belongs to the aborted transaction 120 and points to undo record 40, which is
  no longer in the log: \<open>ZHeapTupleSatisfiesMVCC\<close> on a deleted tuple of that slot
  walks the undo and fails.
\<close>

theorem discarded_first_record_witness:
  "UndoFetchRecord ex_env 40 (ip_blkid (t_self (ex_tuple 4 0x10)))
     (ip_posid (t_self (ex_tuple 4 0x10))) 0 = None
   \<and> GetTupleFromUndo (Suc 4) ex_env 40 (ex_tuple 4 0x10) ex_snapshot 1 0
       = (Fails NullPointerDereference, [40])
   \<and> UndoTupleSatisfiesUpdate (Suc 4) ex_env 40 (ex_tuple 4 0x10) 5 1 None 0 False False
       = (Fails NullPointerDereference, [40])
   \<and> ZHeapTupleSatisfiesMVCC 5 ex_env (ex_tuple 4 0x10) ex_snapshot 1 None
       = (Fails NullPointerDereference, [40])"
  using discarded_first_record [of ex_env 40 "ex_tuple 4 0x10" 0 4 ex_snapshot 1 5 None
      False False]
  by (simp add: ZHeapTupleSatisfiesMVCC_def ex_defs test_defs fuel5)

section \<open>The do-while loop of the walkers\<close>

lemma undo_tup_xact_loop_step:
  "undo_tup_xact_loop (Suc n) env undo_tup undo_tup_xid p =
    (if loop_exits_at env undo_tup undo_tup_xid p
     then (Returns (identity_after_exit env undo_tup p), [p])
     else after_fetches [p]
            (undo_tup_xact_loop n env undo_tup undo_tup_xid
               (uur_blkprev (the (loop_fetch env undo_tup p)))))"
  by (simp add: loop_exits_at_def identity_after_exit_def loop_fetch_def split: option.split)

lemma undo_tup_xact_loop_Suc_fetches:
  "\<exists>rest. snd (undo_tup_xact_loop (Suc n) env undo_tup undo_tup_xid p) = p # rest"
  by (simp add: undo_tup_xact_loop_step after_fetches_def del: undo_tup_xact_loop.simps)

lemma undo_tup_xact_loop_Returns_fetches:
  assumes "undo_tup_xact_loop n env undo_tup undo_tup_xid p = (Returns r, fetched)"
  shows "fetched \<noteq> []"
proof (cases n)
  case 0
  with assms show ?thesis by simp
next
  case (Suc m)
  with assms undo_tup_xact_loop_Suc_fetches [of m env undo_tup undo_tup_xid p]
  show ?thesis by auto
qed

lemma undo_tup_xact_loop_chain:
  "undo_tup_xact_loop fuel env undo_tup undo_tup_xid p = (Returns ident, fetched) \<Longrightarrow>
     fetched \<noteq> [] \<and> hd fetched = p
     \<and> (\<forall>i. Suc i < length fetched \<longrightarrow>
           \<not> loop_exits_at env undo_tup undo_tup_xid (fetched ! i)
           \<and> map_option uur_blkprev (loop_fetch env undo_tup (fetched ! i))
               = Some (fetched ! Suc i))
     \<and> loop_exits_at env undo_tup undo_tup_xid (last fetched)
     \<and> ident = identity_after_exit env undo_tup (last fetched)"
proof (induction fuel arbitrary: p fetched)
  case 0
  then show ?case by simp
next
  case (Suc n)
  show ?case
  proof (cases "loop_exits_at env undo_tup undo_tup_xid p")
    case True
    with Suc.prems show ?thesis
      by (auto simp: undo_tup_xact_loop_step simp del: undo_tup_xact_loop.simps)
  next
    case False
    define q where "q = uur_blkprev (the (loop_fetch env undo_tup p))"
    obtain rest where
      rest: "undo_tup_xact_loop n env undo_tup undo_tup_xid q = (Returns ident, rest)"
      and fetched: "fetched = p # rest"
      using Suc.prems False
      by (cases "undo_tup_xact_loop n env undo_tup undo_tup_xid q")
         (auto simp: undo_tup_xact_loop_step after_fetches_def q_def
            simp del: undo_tup_xact_loop.simps)
    note IH = Suc.IH [OF rest]
    from False obtain urec where urec: "loop_fetch env undo_tup p = Some urec"
      by (auto simp: loop_exits_at_def split: option.splits)
    have link: "map_option uur_blkprev (loop_fetch env undo_tup p) = Some (hd rest)"
      using IH urec by (simp add: q_def)
    have "\<not> loop_exits_at env undo_tup undo_tup_xid (fetched ! i)
           \<and> map_option uur_blkprev (loop_fetch env undo_tup (fetched ! i))
               = Some (fetched ! Suc i)" if "Suc i < length fetched" for i
    proof (cases i)
      case 0
      have "rest \<noteq> []" using IH by simp
      then have "rest ! 0 = hd rest" by (simp add: hd_conv_nth)
      with 0 False link show ?thesis by (simp add: fetched)
    next
      case (Suc j)
      with that IH show ?thesis by (simp add: fetched)
    qed
    with IH show ?thesis by (simp add: fetched)
  qed
qed

lemma undo_tup_xact_loop_one:
  "(\<exists>ident. undo_tup_xact_loop (Suc k) env undo_tup undo_tup_xid q = (Returns ident, [q]))
     \<longleftrightarrow> loop_exits_at env undo_tup undo_tup_xid q"
proof (cases "loop_exits_at env undo_tup undo_tup_xid q")
  case True
  then have "undo_tup_xact_loop (Suc k) env undo_tup undo_tup_xid q
               = (Returns (identity_after_exit env undo_tup q), [q])"
    by (simp add: undo_tup_xact_loop_step del: undo_tup_xact_loop.simps)
  with True show ?thesis by blast
next
  case False
  have "undo_tup_xact_loop (Suc k) env undo_tup undo_tup_xid q \<noteq> (Returns ident', [q])"
    for ident'
    using False
      undo_tup_xact_loop_Returns_fetches [of k env undo_tup undo_tup_xid
        "uur_blkprev (the (loop_fetch env undo_tup q))" ident' "[]"]
    by (cases "undo_tup_xact_loop k env undo_tup undo_tup_xid
           (uur_blkprev (the (loop_fetch env undo_tup q)))")
       (auto simp: undo_tup_xact_loop_step after_fetches_def
          simp del: undo_tup_xact_loop.simps)
  with False show ?thesis by simp
qed

lemma undo_tup_identity_loop:
  "loop_entered env undo_tup (uur_prevxid urec) \<Longrightarrow>
     undo_tup_identity fuel env zhtup urec undo_tup buffer
       = undo_tup_xact_loop fuel env undo_tup (uur_prevxid urec)
           (prev_urec_ptr_of env zhtup urec undo_tup buffer)"
  by (simp add: undo_tup_identity_def Let_def loop_entered_def prev_urec_ptr_of_def)

lemma GetTupleFromUndo_unfold:
  assumes "fetch_undo_record (Suc n) env p zhtup x = (Returns urec, f)"
      and "undo_tup_identity (Suc n) env zhtup urec (CopyTupleFromUndoRecord env urec zhtup True)
             buffer = (Returns (xid, cid, p'), f')"
  shows "GetTupleFromUndo (Suc n) env p zhtup s buffer x =
    (if \<not> undo_tup_assert env (CopyTupleFromUndoRecord env urec zhtup True)
     then (Fails AssertionFailure, f)
     else after_fetches (f @ f')
            (GetTupleFromUndo_decision env s (CopyTupleFromUndoRecord env urec zhtup True) xid cid
               (GetTupleFromUndo n env p' (CopyTupleFromUndoRecord env urec zhtup True) s buffer
                  xid)))"
  using assms
  by (simp add: Let_def GetTupleFromUndo_decision_def del: fetch_undo_record.simps)

lemma UndoTupleSatisfiesUpdate_unfold:
  assumes "fetch_undo_record (Suc n) env p zhtup x = (Returns urec, f)"
      and "undo_tup_identity (Suc n) env zhtup urec (CopyTupleFromUndoRecord env urec zhtup fr)
             buffer = (Returns (xid, cid, p'), f')"
  shows "UndoTupleSatisfiesUpdate (Suc n) env p zhtup c buffer ctid x fr ip =
    (if \<not> undo_tup_assert env (CopyTupleFromUndoRecord env urec zhtup fr)
     then (Fails AssertionFailure, f)
     else after_fetches (f @ f')
            (UndoTupleSatisfiesUpdate_decision env c (CopyTupleFromUndoRecord env urec zhtup fr)
               xid cid
               (ctid_of_undo env urec (CopyTupleFromUndoRecord env urec zhtup fr) ctid)
               (in_place_of_undo env (CopyTupleFromUndoRecord env urec zhtup fr) ip)
               (UndoTupleSatisfiesUpdate n env p' (CopyTupleFromUndoRecord env urec zhtup fr) c
                  buffer
                  (ctid_of_undo env urec (CopyTupleFromUndoRecord env urec zhtup fr) ctid)
                  xid True
                  (in_place_of_undo env (CopyTupleFromUndoRecord env urec zhtup fr) ip))))"
  using assms
  by (simp add: Let_def UndoTupleSatisfiesUpdate_decision_def ctid_of_undo_def
        in_place_of_undo_def del: fetch_undo_record.simps)

text \<open>
  Claim C2. In \<open>GetTupleFromUndo\<close> and in \<open>UndoTupleSatisfiesUpdate\<close> let the record
  fetched at the label \<^verbatim>\<open>fetch_undo_record\<close> give an undo tuple for which the do-while
  loop is entered (the undo tuple carries \<open>ZHEAP_INVALID_XACT_SLOT\<close>, its xid does not
  precede \<open>RecentGlobalXmin\<close> and, line 117, its slot is not the frozen one), and let
  the loop end. Then

  \<^item> an iteration of the loop is the last one exactly when the record it fetches is
    discarded, or the \<open>uur_prevxid\<close> of that record precedes \<open>RecentGlobalXmin\<close>, or the
    record is one of slot reuse whose \<open>uur_prevxid\<close> is the xid captured before the
    loop;

  \<^item> the loop starts at \<open>prev_urec_ptr\<close> and, until it ends, goes from each record to
    its \<open>uur_blkprev\<close>;

  \<^item> it leaves the invalid xid and the invalid cid when it ends on a discarded record
    or on an xid that precedes \<open>RecentGlobalXmin\<close>, and otherwise the xid, the cid and
    the \<open>uur_blkprev\<close> of the record it fetched last;

  \<^item> what it leaves is what the walker goes on with: the run of either walker is the
    fetches so far followed by the decision of lines 182-235 (405-473) taken with that
    xid and that cid, and where the decision is to look deeper, the next call is at that
    pointer, with that xid as \<open>prev_undo_xid\<close>. (\<open>GetTupleFromUndo\<close> always builds the
    undo tuple with \<^verbatim>\<open>true\<close> for \<open>free_zhtup\<close>.)
\<close>

theorem undo_tup_xact_loop_exit:
  assumes f: "fetch_undo_record (Suc n) env urec_ptr zhtup prev_undo_xid = (Returns urec, fetched)"
      and t: "undo_tup = CopyTupleFromUndoRecord env urec zhtup free_zhtup"
      and a: "undo_tup_assert env undo_tup"
      and e: "loop_entered env undo_tup (uur_prevxid urec)"
      and l: "undo_tup_xact_loop (Suc n) env undo_tup (uur_prevxid urec)
                (prev_urec_ptr_of env zhtup urec undo_tup buffer)
              = (Returns (xid, cid, p'), fetched')"
  shows "((\<exists>ident. undo_tup_xact_loop (Suc k) env undo_tup (uur_prevxid urec) q
                     = (Returns ident, [q]))
            \<longleftrightarrow> loop_exits_at env undo_tup (uur_prevxid urec) q)
       \<and> fetched' \<noteq> []
       \<and> hd fetched' = prev_urec_ptr_of env zhtup urec undo_tup buffer
       \<and> (\<forall>i. Suc i < length fetched' \<longrightarrow>
             \<not> loop_exits_at env undo_tup (uur_prevxid urec) (fetched' ! i)
             \<and> map_option uur_blkprev (loop_fetch env undo_tup (fetched' ! i))
                 = Some (fetched' ! Suc i))
       \<and> loop_exits_at env undo_tup (uur_prevxid urec) (last fetched')
       \<and> (xid, cid, p') = identity_after_exit env undo_tup (last fetched')
       \<and> (free_zhtup \<longrightarrow>
            GetTupleFromUndo (Suc n) env urec_ptr zhtup snapshot buffer prev_undo_xid
              = after_fetches (fetched @ fetched')
                  (GetTupleFromUndo_decision env snapshot undo_tup xid cid
                     (GetTupleFromUndo n env p' undo_tup snapshot buffer xid)))
       \<and> UndoTupleSatisfiesUpdate (Suc n) env urec_ptr zhtup curcid' buffer ctid prev_undo_xid
            free_zhtup in_place
           = after_fetches (fetched @ fetched')
               (UndoTupleSatisfiesUpdate_decision env curcid' undo_tup xid cid
                  (ctid_of_undo env urec undo_tup ctid) (in_place_of_undo env undo_tup in_place)
                  (UndoTupleSatisfiesUpdate n env p' undo_tup curcid' buffer
                     (ctid_of_undo env urec undo_tup ctid) xid True
                     (in_place_of_undo env undo_tup in_place)))"
proof -
  note one = undo_tup_xact_loop_one [of k env undo_tup "uur_prevxid urec" q]
  note chain = undo_tup_xact_loop_chain [OF l]
  have idn: "undo_tup_identity (Suc n) env zhtup urec undo_tup buffer
               = (Returns (xid, cid, p'), fetched')"
    using undo_tup_identity_loop [OF e] l by simp
  have g: "GetTupleFromUndo (Suc n) env urec_ptr zhtup snapshot buffer prev_undo_xid
              = after_fetches (fetched @ fetched')
                  (GetTupleFromUndo_decision env snapshot undo_tup xid cid
                     (GetTupleFromUndo n env p' undo_tup snapshot buffer xid))"
    if "free_zhtup"
  proof -
    from that t have t': "undo_tup = CopyTupleFromUndoRecord env urec zhtup True" by simp
    from GetTupleFromUndo_unfold [OF f idn [unfolded t'], of snapshot] a
    show ?thesis by (simp only: t' [symmetric] if_False not_True_eq_False simp_thms)
  qed
  have u: "UndoTupleSatisfiesUpdate (Suc n) env urec_ptr zhtup curcid' buffer ctid prev_undo_xid
            free_zhtup in_place
           = after_fetches (fetched @ fetched')
               (UndoTupleSatisfiesUpdate_decision env curcid' undo_tup xid cid
                  (ctid_of_undo env urec undo_tup ctid) (in_place_of_undo env undo_tup in_place)
                  (UndoTupleSatisfiesUpdate n env p' undo_tup curcid' buffer
                     (ctid_of_undo env urec undo_tup ctid) xid True
                     (in_place_of_undo env undo_tup in_place)))"
    using UndoTupleSatisfiesUpdate_unfold [OF f idn [unfolded t], of curcid' ctid in_place] a
    by (simp only: t [symmetric] if_False not_True_eq_False simp_thms)
  from one chain g u show ?thesis by blast
qed

text \<open>
  On the second page, the walk from pointer 33 for the tuple of slot 2 as transaction
  170 left it. The record at 33 gives the undo tuple of transaction 150, of the same
  slot and marked \<open>ZHEAP_INVALID_XACT_SLOT\<close>. The loop starts at the \<open>uur_blkprev\<close> 32,
  passes the record of slot reuse of transaction 130 and ends at 31, the record of
  slot reuse of transaction 150: it leaves xid 150, cid 2 and pointer 30. Transaction
  150 is in flight, so both walkers look deeper, at 30 with 150 as \<open>prev_undo_xid\<close>,
  and find the tuple inserted by 110. On the first page, the walk from pointer 21: the
  loop ends at once at 22, on xid 40 that precedes the horizon 100, leaves the invalid
  xid and cid, and both walkers take the undo tuple as visible.
\<close>

theorem undo_tup_xact_loop_exit_witness:
  "fetch_undo_record 5 sr_env 33 (ex_tuple 2 0x20) 0 = (Returns (ex_rec 3 150 2 32 2 0x1020), [33])
   \<and> loop_entered sr_env (ex_tuple 2 0x1020) 150
   \<and> prev_urec_ptr_of sr_env (ex_tuple 2 0x20) (ex_rec 3 150 2 32 2 0x1020) (ex_tuple 2 0x1020) 1
       = 32
   \<and> undo_tup_xact_loop 5 sr_env (ex_tuple 2 0x1020) 150 32 = (Returns (150, 2, 30), [32, 31])
   \<and> \<not> loop_exits_at sr_env (ex_tuple 2 0x1020) 150 32
   \<and> loop_fetch sr_env (ex_tuple 2 0x1020) 32 = Some (ex_rec 6 130 1 31 0 0)
   \<and> loop_exits_at sr_env (ex_tuple 2 0x1020) 150 31
   \<and> loop_fetch sr_env (ex_tuple 2 0x1020) 31 = Some (ex_rec 6 150 2 30 0 0)
   \<and> GetTupleFromUndo 5 sr_env 33 (ex_tuple 2 0x20) ex_snapshot 1 0
       = after_fetches [33, 32, 31]
           (GetTupleFromUndo 4 sr_env 30 (ex_tuple 2 0x1020) ex_snapshot 1 150)
   \<and> GetTupleFromUndo 5 sr_env 33 (ex_tuple 2 0x20) ex_snapshot 1 0
       = (Returns (Some (ex_tuple 1 0)), [33, 32, 31, 30])
   \<and> UndoTupleSatisfiesUpdate 5 sr_env 33 (ex_tuple 2 0x20) 5 1 None 0 True False
       = after_fetches [33, 32, 31]
           (UndoTupleSatisfiesUpdate 4 sr_env 30 (ex_tuple 2 0x1020) 5 1 None 150 True True)
   \<and> UndoTupleSatisfiesUpdate 5 sr_env 33 (ex_tuple 2 0x20) 5 1 None 0 True False
       = (Returns (True, None, True), [33, 32, 31, 30])
   \<and> undo_tup_xact_loop 5 ex_env (ex_tuple 2 0x1020) 150 22 = (Returns (0, - 1, 22), [22])
   \<and> loop_fetch ex_env (ex_tuple 2 0x1020) 22 = Some (ex_rec 3 40 1 23 2 0)
   \<and> GetTupleFromUndo 5 ex_env 21 (ex_tuple 2 0x20) ex_snapshot 1 0
       = (Returns (Some (ex_tuple 2 0x1020)), [21, 22])
   \<and> UndoTupleSatisfiesUpdate 5 ex_env 21 (ex_tuple 2 0x20) 5 1 None 0 True False
       = (Returns (True, None, True), [21, 22])"
  using undo_tup_xact_loop_exit [where n = 4 and env = sr_env and urec_ptr = 33
      and zhtup = "ex_tuple 2 0x20" and prev_undo_xid = 0
      and urec = "ex_rec 3 150 2 32 2 0x1020" and fetched = "[33]"
      and undo_tup = "ex_tuple 2 0x1020" and free_zhtup = True and buffer = 1
      and xid = 150 and cid = 2 and p' = 30 and fetched' = "[32, 31]" and k = 0 and q = 32
      and snapshot = ex_snapshot and curcid' = 5 and ctid = None and in_place = False]
    undo_tup_xact_loop_exit [where n = 4 and env = ex_env and urec_ptr = 21
      and zhtup = "ex_tuple 2 0x20" and prev_undo_xid = 0
      and urec = "ex_rec 3 150 2 22 2 0x1020" and fetched = "[21]"
      and undo_tup = "ex_tuple 2 0x1020" and free_zhtup = True and buffer = 1
      and xid = 0 and cid = "- 1" and p' = 22 and fetched' = "[22]" and k = 0 and q = 22
      and snapshot = ex_snapshot and curcid' = 5 and ctid = None and in_place = False]
  by (simp add: sr_defs ex_defs GetTupleFromUndo_4 UndoTupleSatisfiesUpdate_4 fuel5 walk_defs
        loop_exits_at_def loop_fetch_def
        identity_after_exit_def loop_entered_def prev_urec_ptr_of_def
        GetTupleFromUndo_decision_def UndoTupleSatisfiesUpdate_decision_def ctid_of_undo_def
        in_place_of_undo_def)

section \<open>The slot switch\<close>

lemma fetch_undo_record_Suc_fetches:
  "\<exists>rest. snd (fetch_undo_record (Suc n) env p zhtup x) = p # rest"
  by (simp add: after_fetches_def split: option.split)

lemma GetTupleFromUndo_Suc_fetches:
  "\<exists>rest. snd (GetTupleFromUndo (Suc n) env p zhtup snapshot buffer x) = p # rest"
proof -
  obtain rest where "snd (fetch_undo_record (Suc n) env p zhtup x) = p # rest"
    using fetch_undo_record_Suc_fetches by blast
  then show ?thesis
    by (cases "fetch_undo_record (Suc n) env p zhtup x")
       (auto simp: after_fetches_def Let_def simp del: fetch_undo_record.simps
          split: outcome.split prod.split)
qed

lemma GetTupleFromUndo_fetches:
  "snd (GetTupleFromUndo n env p zhtup snapshot buffer x) = []
   \<or> (\<exists>rest. snd (GetTupleFromUndo n env p zhtup snapshot buffer x) = p # rest)"
  using GetTupleFromUndo_Suc_fetches [of _ env p zhtup snapshot buffer x]
  by (cases n) auto

lemma UndoTupleSatisfiesUpdate_Suc_fetches:
  "\<exists>rest. snd (UndoTupleSatisfiesUpdate (Suc n) env p zhtup c buffer ctid x fr ip) = p # rest"
proof -
  obtain rest where "snd (fetch_undo_record (Suc n) env p zhtup x) = p # rest"
    using fetch_undo_record_Suc_fetches by blast
  then show ?thesis
    by (cases "fetch_undo_record (Suc n) env p zhtup x")
       (auto simp: after_fetches_def Let_def simp del: fetch_undo_record.simps
          split: outcome.split prod.split)
qed

lemma UndoTupleSatisfiesUpdate_fetches:
  "snd (UndoTupleSatisfiesUpdate n env p zhtup c buffer ctid x fr ip) = []
   \<or> (\<exists>rest. snd (UndoTupleSatisfiesUpdate n env p zhtup c buffer ctid x fr ip) = p # rest)"
  using UndoTupleSatisfiesUpdate_Suc_fetches [of _ env p zhtup c buffer ctid x fr ip]
  by (cases n) auto

lemma undo_tup_identity_slot_switch:
  assumes "ZHeapTupleHeaderGetXactSlot env (t_data undo_tup) \<noteq> ZHTUP_SLOT_FROZEN env"
      and "ZHeapTupleHeaderGetXactSlot env (t_data undo_tup)
             \<noteq> ZHeapTupleHeaderGetXactSlot env (t_data zhtup)"
  shows "(\<exists>cid. undo_tup_identity (Suc n) env zhtup urec undo_tup buffer
            = (Returns (uur_prevxid urec, cid,
                 ZHeapTupleHeaderGetRawUndoPtr env (t_data undo_tup)
                   (PageGetSpecialPointer env buffer)), []))
       \<or> (\<exists>rest. snd (undo_tup_identity (Suc n) env zhtup urec undo_tup buffer)
            = ZHeapTupleHeaderGetRawUndoPtr env (t_data undo_tup)
                (PageGetSpecialPointer env buffer) # rest)"
  using assms
    undo_tup_xact_loop_Suc_fetches [of n env undo_tup "uur_prevxid urec"
      "ZHeapTupleHeaderGetRawUndoPtr env (t_data undo_tup) (PageGetSpecialPointer env buffer)"]
  by (auto simp: undo_tup_identity_def Let_def simp del: undo_tup_xact_loop.simps)

lemma GetTupleFromUndo_slot_switch:
  assumes f: "fetch_undo_record fuel env urec_ptr zhtup prev_undo_xid = (Returns urec, fetched)"
      and s1: "ZHeapTupleHeaderGetXactSlot env
                 (t_data (CopyTupleFromUndoRecord env urec zhtup True)) \<noteq> ZHTUP_SLOT_FROZEN env"
      and s2: "ZHeapTupleHeaderGetXactSlot env
                 (t_data (CopyTupleFromUndoRecord env urec zhtup True))
               \<noteq> ZHeapTupleHeaderGetXactSlot env (t_data zhtup)"
  shows "snd (GetTupleFromUndo fuel env urec_ptr zhtup snapshot buffer prev_undo_xid) = fetched
       \<or> (\<exists>rest. snd (GetTupleFromUndo fuel env urec_ptr zhtup snapshot buffer prev_undo_xid)
             = fetched @ ZHeapTupleHeaderGetRawUndoPtr env
                 (t_data (CopyTupleFromUndoRecord env urec zhtup True))
                 (PageGetSpecialPointer env buffer) # rest)"
proof (cases fuel)
  case 0
  with f show ?thesis by simp
next
  case (Suc n)
  define undo_tup where "undo_tup = CopyTupleFromUndoRecord env urec zhtup True"
  define sp where "sp = ZHeapTupleHeaderGetRawUndoPtr env (t_data undo_tup)
                          (PageGetSpecialPointer env buffer)"
  note f' = f [unfolded Suc]
  consider
    (direct) cid where "undo_tup_identity (Suc n) env zhtup urec undo_tup buffer
                          = (Returns (uur_prevxid urec, cid, sp), [])"
  | (loop) rest where "snd (undo_tup_identity (Suc n) env zhtup urec undo_tup buffer) = sp # rest"
    using undo_tup_identity_slot_switch [of env undo_tup zhtup n urec buffer] s1 s2
    unfolding undo_tup_def sp_def by blast
  then have
    "snd (GetTupleFromUndo (Suc n) env urec_ptr zhtup snapshot buffer prev_undo_xid) = fetched
     \<or> (\<exists>rest. snd (GetTupleFromUndo (Suc n) env urec_ptr zhtup snapshot buffer prev_undo_xid)
           = fetched @ sp # rest)"
  proof cases
    case direct
    show ?thesis
      using f' direct
        GetTupleFromUndo_fetches [of n env sp undo_tup snapshot buffer "uur_prevxid urec"]
      by (auto simp: Let_def after_fetches_def undo_tup_def [symmetric]
            simp del: fetch_undo_record.simps GetTupleFromUndo.simps(1))
  next
    case loop
    show ?thesis
      using f' loop
      by (cases "undo_tup_identity (Suc n) env zhtup urec undo_tup buffer")
         (auto simp: Let_def after_fetches_def undo_tup_def [symmetric]
            simp del: fetch_undo_record.simps split: outcome.split prod.split)
  qed
  then show ?thesis unfolding Suc undo_tup_def sp_def .
qed

lemma UndoTupleSatisfiesUpdate_slot_switch:
  assumes f: "fetch_undo_record fuel env urec_ptr zhtup prev_undo_xid = (Returns urec, fetched)"
      and s1: "ZHeapTupleHeaderGetXactSlot env
                 (t_data (CopyTupleFromUndoRecord env urec zhtup free_zhtup))
               \<noteq> ZHTUP_SLOT_FROZEN env"
      and s2: "ZHeapTupleHeaderGetXactSlot env
                 (t_data (CopyTupleFromUndoRecord env urec zhtup free_zhtup))
               \<noteq> ZHeapTupleHeaderGetXactSlot env (t_data zhtup)"
  shows "snd (UndoTupleSatisfiesUpdate fuel env urec_ptr zhtup curcid' buffer ctid prev_undo_xid
                free_zhtup in_place) = fetched
       \<or> (\<exists>rest. snd (UndoTupleSatisfiesUpdate fuel env urec_ptr zhtup curcid' buffer ctid
                         prev_undo_xid free_zhtup in_place)
             = fetched @ ZHeapTupleHeaderGetRawUndoPtr env
                 (t_data (CopyTupleFromUndoRecord env urec zhtup free_zhtup))
                 (PageGetSpecialPointer env buffer) # rest)"
proof (cases fuel)
  case 0
  with f show ?thesis by simp
next
  case (Suc n)
  define undo_tup where "undo_tup = CopyTupleFromUndoRecord env urec zhtup free_zhtup"
  define sp where "sp = ZHeapTupleHeaderGetRawUndoPtr env (t_data undo_tup)
                          (PageGetSpecialPointer env buffer)"
  define ctid1 where "ctid1 =
    (case ctid of None \<Rightarrow> None
     | Some old \<Rightarrow> if uur_type urec = UNDO_UPDATE env then Some (uur_payload urec)
                   else Some (t_self undo_tup))"
  define in_place1 where "in_place1 =
    (if infomask_has (t_data undo_tup) (ZHEAP_INPLACE_UPDATED env) then True
     else if infomask_has (t_data undo_tup) (ZHEAP_XID_LOCK_ONLY env) then True
     else in_place)"
  note f' = f [unfolded Suc]
  consider
    (direct) cid where "undo_tup_identity (Suc n) env zhtup urec undo_tup buffer
                          = (Returns (uur_prevxid urec, cid, sp), [])"
  | (loop) rest where "snd (undo_tup_identity (Suc n) env zhtup urec undo_tup buffer) = sp # rest"
    using undo_tup_identity_slot_switch [of env undo_tup zhtup n urec buffer] s1 s2
    unfolding undo_tup_def sp_def by blast
  then have
    "snd (UndoTupleSatisfiesUpdate (Suc n) env urec_ptr zhtup curcid' buffer ctid prev_undo_xid
            free_zhtup in_place) = fetched
     \<or> (\<exists>rest. snd (UndoTupleSatisfiesUpdate (Suc n) env urec_ptr zhtup curcid' buffer ctid
                       prev_undo_xid free_zhtup in_place) = fetched @ sp # rest)"
  proof cases
    case direct
    show ?thesis
      using f' direct
        UndoTupleSatisfiesUpdate_fetches [of n env sp undo_tup curcid' buffer ctid1
          "uur_prevxid urec" True in_place1]
      by (auto simp: Let_def after_fetches_def undo_tup_def [symmetric] ctid1_def [symmetric]
            in_place1_def [symmetric]
            simp del: fetch_undo_record.simps UndoTupleSatisfiesUpdate.simps(1))
  next
    case loop
    show ?thesis
      using f' loop
      by (cases "undo_tup_identity (Suc n) env zhtup urec undo_tup buffer")
         (auto simp: Let_def after_fetches_def undo_tup_def [symmetric]
            simp del: fetch_undo_record.simps split: outcome.split prod.split)
  qed
  then show ?thesis unfolding Suc undo_tup_def sp_def .
qed

text \<open>
  Claim C4. In \<open>GetTupleFromUndo\<close> and in \<open>UndoTupleSatisfiesUpdate\<close>, let the walk
  have fetched the undo record from which it builds the undo tuple (\<open>fetched\<close> are the
  fetches up to there). When the slot of the undo tuple is not the frozen one and
  differs from the slot of the tuple the walk started from, the next fetch of the
  walk, if there is one, is at the undo pointer of the undo tuple's slot in the page,
  whatever the \<open>uur_blkprev\<close> of the record is. This holds of every run, ended or
  cut off by the bound.
\<close>

theorem slot_switch_next_fetch:
  "(fetch_undo_record fuel env urec_ptr zhtup prev_undo_xid = (Returns urec, fetched)
    \<and> ZHeapTupleHeaderGetXactSlot env (t_data (CopyTupleFromUndoRecord env urec zhtup True))
        \<noteq> ZHTUP_SLOT_FROZEN env
    \<and> ZHeapTupleHeaderGetXactSlot env (t_data (CopyTupleFromUndoRecord env urec zhtup True))
        \<noteq> ZHeapTupleHeaderGetXactSlot env (t_data zhtup)
    \<longrightarrow>
      snd (GetTupleFromUndo fuel env urec_ptr zhtup snapshot buffer prev_undo_xid) = fetched
      \<or> (\<exists>rest. snd (GetTupleFromUndo fuel env urec_ptr zhtup snapshot buffer prev_undo_xid)
            = fetched @ ZHeapTupleHeaderGetRawUndoPtr env
                (t_data (CopyTupleFromUndoRecord env urec zhtup True))
                (PageGetSpecialPointer env buffer) # rest))
   \<and> (fetch_undo_record fuel env urec_ptr zhtup prev_undo_xid = (Returns urec, fetched)
    \<and> ZHeapTupleHeaderGetXactSlot env
         (t_data (CopyTupleFromUndoRecord env urec zhtup free_zhtup)) \<noteq> ZHTUP_SLOT_FROZEN env
    \<and> ZHeapTupleHeaderGetXactSlot env
         (t_data (CopyTupleFromUndoRecord env urec zhtup free_zhtup))
        \<noteq> ZHeapTupleHeaderGetXactSlot env (t_data zhtup)
    \<longrightarrow>
      snd (UndoTupleSatisfiesUpdate fuel env urec_ptr zhtup curcid' buffer ctid prev_undo_xid
             free_zhtup in_place) = fetched
      \<or> (\<exists>rest. snd (UndoTupleSatisfiesUpdate fuel env urec_ptr zhtup curcid' buffer ctid
                        prev_undo_xid free_zhtup in_place)
            = fetched @ ZHeapTupleHeaderGetRawUndoPtr env
                (t_data (CopyTupleFromUndoRecord env urec zhtup free_zhtup))
                (PageGetSpecialPointer env buffer) # rest))"
  using GetTupleFromUndo_slot_switch [of fuel env urec_ptr zhtup prev_undo_xid urec fetched
      snapshot buffer]
    UndoTupleSatisfiesUpdate_slot_switch [of fuel env urec_ptr zhtup prev_undo_xid urec fetched
      free_zhtup curcid' buffer ctid in_place]
  by blast

text \<open>
  A tuple of slot 6 whose undo record at pointer 60 gives an undo tuple of slot 1: the
  record's \<open>uur_blkprev\<close> is 61, the undo pointer of slot 1 is 10, and both walkers
  fetch 10 next.
\<close>

theorem slot_switch_next_fetch_witness:
  "fetch_undo_record 5 ex_env 60 (ex_tuple 6 0x20) 0
     = (Returns (ex_rec 3 150 2 61 1 0x20), [60])
   \<and> CopyTupleFromUndoRecord ex_env (ex_rec 3 150 2 61 1 0x20) (ex_tuple 6 0x20) True
       = ex_tuple 1 0x20
   \<and> ZHeapTupleHeaderGetXactSlot ex_env (t_data (ex_tuple 1 0x20)) = 1
   \<and> ZHeapTupleHeaderGetXactSlot ex_env (t_data (ex_tuple 6 0x20)) = 6
   \<and> ZHTUP_SLOT_FROZEN ex_env = 0
   \<and> uur_blkprev (ex_rec 3 150 2 61 1 0x20) = 61
   \<and> ZHeapTupleHeaderGetRawUndoPtr ex_env (t_data (ex_tuple 1 0x20))
        (PageGetSpecialPointer ex_env 1) = 10
   \<and> snd (GetTupleFromUndo 5 ex_env 60 (ex_tuple 6 0x20) ex_snapshot 1 0) = [60, 10]
   \<and> snd (UndoTupleSatisfiesUpdate 5 ex_env 60 (ex_tuple 6 0x20) 5 1 None 0 True False)
       = [60, 10]"
  using slot_switch_next_fetch [of 5 ex_env 60 "ex_tuple 6 0x20" 0 "ex_rec 3 150 2 61 1 0x20"
      "[60]" ex_snapshot 1 True 5 None False]
  by (simp add: ex_defs fuel5 after_fetches_def undo_tup_identity_def undo_oper_of_def
        undo_tup_assert_def assert_passes_def infomask_has_def)

section \<open>Whether a walk ends\<close>







lemma GetTupleFromUndo_decision_cases:
  "(\<exists>r. GetTupleFromUndo_decision env snapshot undo_tup xid cid deeper = (Returns r, []))
   \<or> \<not> TransactionIdPrecedes env xid (RecentGlobalXmin env)
      \<and> GetTupleFromUndo_decision env snapshot undo_tup xid cid deeper = deeper"
  by (simp add: GetTupleFromUndo_decision_def Let_def)


















lemma undo_ranked_counted:
  "undo_ranked env buffer rank \<Longrightarrow> undo_counted env buffer rank rank"
  unfolding undo_ranked_def undo_counted_def by (simp add: less_imp_le)




end
